theory Spec2Isabelle
  imports Main "HOL-Library.Log_Nat"
begin

section \<open>JavaScript values\<close>

text \<open>
  The payment flow handles values that come out of \<^verbatim>\<open>JSON.parse\<close> and out of the
  document store. A JavaScript number is an IEEE 754 double: the finite ones are
  rationals (negative zero is identified with zero), the others are NaN and the two
  infinities.
\<close>

datatype jsnum = Num rat | NaN | PosInfinity | NegInfinity

datatype json =
    JNull
  | JBool bool
  | JNum jsnum
  | JStr string
  | JArr "json list"
  | JObj "(string \<times> json) list"

datatype js_error = SyntaxError | TypeError | Error string

text \<open>
  Property access \<^verbatim>\<open>v?.k\<close> on a value that may be \<^verbatim>\<open>undefined\<close> (\<open>None\<close>).
  The handlers only read the keys \<^verbatim>\<open>event\<close>, \<^verbatim>\<open>data\<close>, \<^verbatim>\<open>reference\<close>, \<^verbatim>\<open>id\<close>,
  \<^verbatim>\<open>amount\<close>, \<^verbatim>\<open>status\<close>, \<^verbatim>\<open>coverLetter\<close>, \<^verbatim>\<open>Body\<close>, \<^verbatim>\<open>stkCallback\<close>,
  \<^verbatim>\<open>CheckoutRequestID\<close>, \<^verbatim>\<open>ResultCode\<close>, \<^verbatim>\<open>CallbackMetadata\<close>, \<^verbatim>\<open>Item\<close>, \<^verbatim>\<open>Name\<close>
  and \<^verbatim>\<open>Value\<close>; none of them is a property of the prototypes of strings, numbers,
  booleans or arrays, so only an object can answer.
\<close>

definition js_prop :: "json option \<Rightarrow> string \<Rightarrow> json option" where
  "js_prop v k = (case v of Some (JObj kvs) \<Rightarrow> map_of kvs k | _ \<Rightarrow> None)"

text \<open>JavaScript truthiness: \<^verbatim>\<open>!v\<close> is \<open>\<not> truthy v\<close>.\<close>

fun truthy :: "json option \<Rightarrow> bool" where
  "truthy None = False"
| "truthy (Some JNull) = False"
| "truthy (Some (JBool b)) = b"
| "truthy (Some (JNum n)) = (n \<noteq> Num 0 \<and> n \<noteq> NaN)"
| "truthy (Some (JStr s)) = (s \<noteq> [])"
| "truthy (Some (JArr xs)) = True"
| "truthy (Some (JObj kvs)) = True"

text \<open>
  \<open>nonNull v\<close> is \<open>None\<close> when \<^verbatim>\<open>v == null\<close> holds, that is when \<open>v\<close> is
  \<^verbatim>\<open>undefined\<close> or \<^verbatim>\<open>null\<close>; \<open>coalesce v d\<close> is \<^verbatim>\<open>v ?? d\<close>.
\<close>

fun nonNull :: "json option \<Rightarrow> json option" where
  "nonNull None = None"
| "nonNull (Some JNull) = None"
| "nonNull (Some v) = Some v"

definition coalesce :: "json option \<Rightarrow> json \<Rightarrow> json" where
  "coalesce v d = (case nonNull v of None \<Rightarrow> d | Some w \<Rightarrow> w)"

text \<open>\<open>orElse v d\<close> is \<^verbatim>\<open>v || d\<close>.\<close>

definition orElse :: "json option \<Rightarrow> json \<Rightarrow> json" where
  "orElse v d = (case v of None \<Rightarrow> d | Some w \<Rightarrow> if truthy v then w else d)"

text \<open>
  What the handlers call and is not code of the repository. Of the built-ins of the
  language: \<^verbatim>\<open>JSON.parse\<close> (\<open>None\<close> when it throws), and the conversions
  \<^verbatim>\<open>String(v)\<close> and \<^verbatim>\<open>Number(v)\<close> on the values where they are not the identity. Of
  the library of the document store: what the cast of a schema makes of a value that
  is not of the type of the attribute. \<open>castString\<close> and \<open>castNumber\<close> give the
  value that is stored (\<open>None\<close>: the attribute is unset), or the error with which
  \<^verbatim>\<open>save\<close> rejects; \<open>castFilter v s\<close> tells whether a filter value \<open>v\<close> that is no
  string matches the stored value \<open>s\<close> of a string attribute (a filter that the
  library refuses matches nothing).
\<close>

record js_runtime =
  JSON_parse :: "string \<Rightarrow> json option"
  ToString :: "json \<Rightarrow> string"
  ToNumber :: "json \<Rightarrow> jsnum"
  castString :: "json \<Rightarrow> js_error + string option"
  castNumber :: "json \<Rightarrow> js_error + jsnum option"
  castFilter :: "json option \<Rightarrow> string option \<Rightarrow> bool"

definition js_String :: "js_runtime \<Rightarrow> json \<Rightarrow> string" where
  "js_String rt v = (case v of JStr s \<Rightarrow> s | _ \<Rightarrow> ToString rt v)"

definition js_Number :: "js_runtime \<Rightarrow> json \<Rightarrow> jsnum" where
  "js_Number rt v = (case v of JNum x \<Rightarrow> x | _ \<Rightarrow> ToNumber rt v)"

subsection \<open>Double arithmetic\<close>

text \<open>
  \<open>exponent x\<close> is \<open>\<lfloor>log\<^sub>2 \<bar>x\<bar>\<rfloor>\<close> for \<open>x \<noteq> 0\<close>; \<open>fl\<close> rounds an exact result to
  the nearest double, ties to even, with a 53-bit significand and the subnormal
  spacing below \<open>2\<^sup>-\<^sup>1\<^sup>0\<^sup>2\<^sup>2\<close>; \<open>toDouble\<close> adds the overflow to an infinity.
\<close>

definition exponent :: "rat \<Rightarrow> int" where
  "exponent x =
     (let (p, q) = quotient_of \<bar>x\<bar>; a = bitlen p - bitlen q
      in if 2 powi a \<le> \<bar>x\<bar> then a else a - 1)"

definition roundHalfEven :: "rat \<Rightarrow> int" where
  "roundHalfEven x =
     (let f = \<lfloor>x\<rfloor>; r = x - of_int f
      in if r < 1 / 2 then f else if 1 / 2 < r then f + 1 else if even f then f else f + 1)"

definition fl :: "rat \<Rightarrow> rat" where
  "fl x =
     (if x = 0 then 0
      else let e = max (exponent x) (- 1022); u = 2 powi (e - 52)
           in of_int (roundHalfEven (x / u)) * u)"

definition toDouble :: "rat \<Rightarrow> jsnum" where
  "toDouble x =
     (let y = fl x
      in if 2 powi 1024 \<le> y then PosInfinity
         else if y \<le> - (2 powi 1024) then NegInfinity
         else Num y)"

text \<open>
  \<^verbatim>\<open>x * c\<close> and \<^verbatim>\<open>x / c\<close> for a finite constant \<open>c\<close> (the code only uses \<open>100\<close>).
\<close>

fun js_mul :: "jsnum \<Rightarrow> rat \<Rightarrow> jsnum" where
  "js_mul (Num x) c = toDouble (x * c)"
| "js_mul NaN c = NaN"
| "js_mul PosInfinity c = (if c = 0 then NaN else if 0 < c then PosInfinity else NegInfinity)"
| "js_mul NegInfinity c = (if c = 0 then NaN else if 0 < c then NegInfinity else PosInfinity)"

fun js_div :: "jsnum \<Rightarrow> rat \<Rightarrow> jsnum" where
  "js_div (Num x) c =
     (if c \<noteq> 0 then toDouble (x / c)
      else if x = 0 then NaN else if 0 < x then PosInfinity else NegInfinity)"
| "js_div NaN c = NaN"
| "js_div PosInfinity c = (if 0 \<le> c then PosInfinity else NegInfinity)"
| "js_div NegInfinity c = (if 0 \<le> c then NegInfinity else PosInfinity)"

text \<open>\<^verbatim>\<open>Math.round\<close>: the nearest integer, a tie going up.\<close>

fun Math_round :: "jsnum \<Rightarrow> jsnum" where
  "Math_round (Num x) = Num (of_int \<lfloor>x + 1 / 2\<rfloor>)"
| "Math_round n = n"

subsection \<open>Strings\<close>

definition startsWith :: "string \<Rightarrow> string \<Rightarrow> bool" where
  "startsWith s p = (take (length p) s = p)"

definition isDigit :: "char \<Rightarrow> bool" where
  "isDigit c = (c \<in> set ''0123456789'')"

text \<open>\<^verbatim>\<open>s.replace(/^APP-/, '')\<close>\<close>

definition replace_APP_prefix :: "string \<Rightarrow> string" where
  "replace_APP_prefix s = (if startsWith s ''APP-'' then drop 4 s else s)"

text \<open>
  \<^verbatim>\<open>s.replace(/-\d+$/, '')\<close>: the scan tries each position from the left; a match
  is a dash followed by one or more digits that reach the end of the string, and it
  is replaced by the empty string.
\<close>

fun replace_dash_digits_suffix :: "string \<Rightarrow> string" where
  "replace_dash_digits_suffix [] = []"
| "replace_dash_digits_suffix (c # cs) =
     (if c = CHR ''-'' \<and> cs \<noteq> [] \<and> list_all isDigit cs then []
      else c # replace_dash_digits_suffix cs)"

text \<open>The decimal digits of a natural number, as a template literal prints them.\<close>

definition digit :: "nat \<Rightarrow> char" where
  "digit d = ''0123456789'' ! d"

fun decimal :: "nat \<Rightarrow> string" where
  "decimal n = (if n < 10 then [digit n] else decimal (n div 10) @ [digit (n mod 10)])"

declare decimal.simps [simp del]

section \<open>The data model\<close>

datatype status =
  pending_payment | submitted | under_review | shortlisted | rejected | accepted

text \<open>
  Modelled from the spec: the schema of the Application documents
  (\<^verbatim>\<open>models/Application.js\<close>) is not among the sources. The record holds the
  attributes the spec lists (owner, opportunity, document URLs, cover letter, status,
  provider correlation token, paid amount, provider transaction id) under the names
  the route handlers use; \<open>app_id\<close> is \<^verbatim>\<open>_id\<close>, printed as the hexadecimal string of
  the ObjectId. The Paystack version writes the provider's transaction id to
  \<^verbatim>\<open>paymentTransactionId\<close>, the Daraja version to \<^verbatim>\<open>mpesaTransactionId\<close>. An unset
  attribute is \<open>None\<close>. A value is stored as the handler assigned it.
\<close>

record application =
  app_id :: string
  userId :: string
  opportunityId :: string
  resumeUrl :: string
  recommendationLetterUrl :: "string option"
  coverLetter :: "json option"
  status :: status
  paymentTransactionId :: "string option"
  amountPaid :: "jsnum option"
  mpesaCheckoutRequestId :: "string option"
  mpesaTransactionId :: "string option"

text \<open>
  The collection of applications, in insertion order, with the operations of the
  document store the handlers use.
\<close>

type_synonym store = "application list"

definition findOne :: "(application \<Rightarrow> bool) \<Rightarrow> store \<Rightarrow> application option" where
  "findOne P st = find P st"

definition findById :: "string \<Rightarrow> store \<Rightarrow> application option" where
  "findById i st = findOne (\<lambda>a. app_id a = i) st"

text \<open>
  \<^verbatim>\<open>document.save()\<close> on a document read from the store: the update goes to the
  first document with that \<^verbatim>\<open>_id\<close>.
\<close>

fun save :: "application \<Rightarrow> store \<Rightarrow> store" where
  "save a [] = []"
| "save a (b # st) = (if app_id b = app_id a then a # st else b # save a st)"

definition create :: "application \<Rightarrow> store \<Rightarrow> store" where
  "create a st = st @ [a]"

text \<open>
  Modelled from the spec: the types of the attributes are those of the schema, which
  is not among the sources; \<^verbatim>\<open>mpesaTransactionId\<close> and \<^verbatim>\<open>mpesaCheckoutRequestId\<close> are
  strings, \<^verbatim>\<open>amountPaid\<close> is a number. Assigning a value taken from a request to a
  string attribute or to a number attribute: \<^verbatim>\<open>undefined\<close> unsets the attribute, a
  value of the type of the attribute is stored as it is, any other value goes through
  the cast of the schema.
\<close>

definition assignString :: "js_runtime \<Rightarrow> json option \<Rightarrow> js_error + string option" where
  "assignString rt v =
     (case v of
        None \<Rightarrow> Inr None
      | Some w \<Rightarrow> (case w of JStr s \<Rightarrow> Inr (Some s) | _ \<Rightarrow> castString rt w))"

definition assignNumber :: "js_runtime \<Rightarrow> json option \<Rightarrow> js_error + jsnum option" where
  "assignNumber rt v =
     (case v of
        None \<Rightarrow> Inr None
      | Some w \<Rightarrow> (case w of JNum x \<Rightarrow> Inr (Some x) | _ \<Rightarrow> castNumber rt w))"

text \<open>
  The filter \<^verbatim>\<open>{ mpesaCheckoutRequestId: v }\<close>: a string matches the documents that
  hold that string.
\<close>

definition checkoutFilter :: "js_runtime \<Rightarrow> json option \<Rightarrow> application \<Rightarrow> bool" where
  "checkoutFilter rt v a =
     (case v of
        None \<Rightarrow> castFilter rt v (mpesaCheckoutRequestId a)
      | Some w \<Rightarrow>
          (case w of
             JStr c \<Rightarrow> mpesaCheckoutRequestId a = Some c
           | _ \<Rightarrow> castFilter rt v (mpesaCheckoutRequestId a)))"

section \<open>The Paystack webhook\<close>

record webhook_request =
  rawBody :: string
  signature :: "string option"

text \<open>
  \<^verbatim>\<open>verifyWebhookSignature\<close> of \<^verbatim>\<open>utils/paystack.js\<close>; the first argument is
  \<^verbatim>\<open>crypto.createHmac('sha512', secret).update(payload).digest('hex')\<close>, the second
  the environment variable \<^verbatim>\<open>PAYSTACK_SECRET_KEY\<close>.
\<close>

definition verifyWebhookSignature ::
  "(string \<Rightarrow> string \<Rightarrow> string) \<Rightarrow> string option \<Rightarrow> string \<Rightarrow> string option \<Rightarrow> bool" where
  "verifyWebhookSignature hmac_sha512_hex secret payload sig =
     (case secret of
        None \<Rightarrow> True
      | Some k \<Rightarrow> if k = [] then True else Some (hmac_sha512_hex k payload) = sig)"

text \<open>
  \<^verbatim>\<open>paystackWebhookHandler\<close>, after the acknowledgement has been sent. The first part
  reads the delivery (up to the check of the reference prefix): \<open>Inr None\<close> is a
  \<^verbatim>\<open>return\<close>, \<open>Inl\<close> an exception that rejects the handler's promise, and
  \<open>Inr (Some (reference, id, amount))\<close> goes on to the store.
\<close>

definition parseBody :: "js_runtime \<Rightarrow> webhook_request \<Rightarrow> json option" where
  "parseBody rt req = (if rawBody req = [] then Some (JObj []) else JSON_parse rt (rawBody req))"

definition chargeEvent ::
  "js_runtime \<Rightarrow> webhook_request \<Rightarrow> js_error + (string \<times> json option \<times> json option) option" where
  "chargeEvent rt req =
     (case parseBody rt req of
        None \<Rightarrow> Inr None
      | Some body \<Rightarrow>
          (let event = js_prop (Some body) ''event'';
               data = js_prop (Some body) ''data''
           in if event \<noteq> Some (JStr ''charge.success'') \<or> \<not> truthy data then Inr None
              else
                (let reference = js_prop data ''reference'';
                     id' = js_prop data ''id'';
                     amount = js_prop data ''amount''
                 in if \<not> truthy reference then Inr None
                    else (case reference of
                            Some (JStr r) \<Rightarrow>
                              if \<not> startsWith r ''APP-'' then Inr None
                              else Inr (Some (r, id', amount))
                          | _ \<Rightarrow> Inl TypeError))))"

definition applicationIdOf :: "string \<Rightarrow> string" where
  "applicationIdOf reference = replace_dash_digits_suffix (replace_APP_prefix reference)"

text \<open>
  The second part: look the application up and apply the transition. A reference
  that is no ObjectId makes \<^verbatim>\<open>findById\<close> reject before anything is written; the
  store is then as if no document had been found.
\<close>

definition confirmPayment ::
  "js_runtime \<Rightarrow> string \<times> json option \<times> json option \<Rightarrow> store \<Rightarrow> store" where
  "confirmPayment rt ev st =
     (case ev of (reference, id', amount) \<Rightarrow>
        (let applicationId = applicationIdOf reference
         in (case findById applicationId st of
               None \<Rightarrow> st
             | Some application \<Rightarrow>
                 (if status application \<noteq> pending_payment then st
                  else
                    (let a1 = application\<lparr>status := submitted\<rparr>;
                         a2 = a1\<lparr>paymentTransactionId :=
                                Some (js_String rt (coalesce id' (JStr reference)))\<rparr>;
                         a3 = (case nonNull amount of
                                 None \<Rightarrow> a2
                               | Some v \<Rightarrow> a2\<lparr>amountPaid := Some (js_div (js_Number rt v) 100)\<rparr>)
                     in save a3 st)))))"

definition paystackWebhookHandler ::
  "js_runtime \<Rightarrow> webhook_request \<Rightarrow> store \<Rightarrow> js_error + store" where
  "paystackWebhookHandler rt req st =
     (case chargeEvent rt req of
        Inl e \<Rightarrow> Inl e
      | Inr None \<Rightarrow> Inr st
      | Inr (Some ev) \<Rightarrow> Inr (confirmPayment rt ev st))"

text \<open>The store once the handler is over: an exception has written nothing.\<close>

definition store_after :: "store \<Rightarrow> js_error + store \<Rightarrow> store" where
  "store_after st r = (case r of Inl e \<Rightarrow> st | Inr st' \<Rightarrow> st')"

section \<open>Initiating a payment\<close>

text \<open>
  Modelled from the spec: the schema of the Opportunity documents
  (\<^verbatim>\<open>models/Opportunity.js\<close>) is not among the sources. An opportunity carries
  \<^verbatim>\<open>applicationFee\<close>, which may be absent, and \<^verbatim>\<open>type\<close>; the handlers also read
  \<^verbatim>\<open>isActive\<close> and \<^verbatim>\<open>title\<close>.
\<close>

record opportunity =
  opp_id :: string
  isActive :: bool
  opp_type :: string
  applicationFee :: "jsnum option"
  title :: string

text \<open>\<^verbatim>\<open>req.user\<close>, as the authentication middleware leaves it.\<close>

record user =
  user_id :: string
  user_email :: string
  user_name :: string

text \<open>The argument of \<^verbatim>\<open>initializeTransaction\<close> and the body it posts to Paystack.\<close>

record init_args =
  reference :: string
  amount :: jsnum
  currency :: string
  callbackUrl :: string
  cancelUrl :: string
  customer_email :: string
  customer_name :: string

record paystack_body =
  body_reference :: string
  body_amount :: jsnum
  body_currency :: string
  body_callback_url :: string
  body_email :: string
  metadata_customer_name :: string
  metadata_cancel_action :: "string option"

text \<open>The body \<^verbatim>\<open>initiateSTKPush\<close> posts to Daraja.\<close>

record stk_body =
  BusinessShortCode :: string
  Password :: string
  Timestamp :: string
  TransactionType :: string
  Amount :: jsnum
  PartyA :: string
  PartyB :: string
  PhoneNumber :: string
  CallBackURL :: string
  AccountReference :: string
  TransactionDesc :: string

text \<open>
  What one request sees of the world outside the process: the environment
  variables, the clock, the identifier the store gives a new document, and the
  answers of the blob storage and of the two payment providers. A provider call
  answers \<open>Inl\<close> with a message when it fails.
\<close>

record services =
  PAYSTACK_SECRET_KEY :: "string option"
  baseUrl :: string
  now :: nat
  newObjectId :: string
  uploadToCloudinary :: "string \<Rightarrow> string \<Rightarrow> js_error + string"
  paystack_initialize :: "paystack_body \<Rightarrow> string + string"
  MPESA_SHORTCODE :: string
  MPESA_CALLBACK_URL :: string
  stk_timestamp :: string
  stk_password :: string
  getAccessToken :: "js_error + string"
  daraja_stkpush :: "string \<Rightarrow> stk_body \<Rightarrow> string + string"

text \<open>The calls a handler makes to a payment provider, in order.\<close>

datatype provider_call = PaystackInitialize paystack_body | StkPush stk_body

record response =
  statusCode :: nat
  message :: string

definition errorMessage :: "js_error \<Rightarrow> string" where
  "errorMessage e = (case e of Error m \<Rightarrow> m | _ \<Rightarrow> [])"

text \<open>\<^verbatim>\<open>Math.round(Number(amount) * 100)\<close> of \<^verbatim>\<open>initializeTransaction\<close>.\<close>

definition amountInSmallest :: "jsnum \<Rightarrow> jsnum" where
  "amountInSmallest a = Math_round (js_mul a 100)"

definition initializeTransaction ::
  "services \<Rightarrow> init_args \<Rightarrow> (js_error + string) \<times> provider_call list" where
  "initializeTransaction sv args =
     (case PAYSTACK_SECRET_KEY sv of
        None \<Rightarrow> (Inl (Error ''PAYSTACK_SECRET_KEY is not set''), [])
      | Some secretKey \<Rightarrow>
          if secretKey = [] then (Inl (Error ''PAYSTACK_SECRET_KEY is not set''), [])
          else
            (let body = \<lparr>body_reference = reference args,
                          body_amount = amountInSmallest (amount args),
                          body_currency = (if currency args = [] then ''KES'' else currency args),
                          body_callback_url = callbackUrl args,
                          body_email = customer_email args,
                          metadata_customer_name =
                            (if customer_name args = [] then ''Applicant'' else customer_name args),
                          metadata_cancel_action =
                            (if cancelUrl args = [] then None else Some (cancelUrl args))\<rparr>
             in (case paystack_initialize sv body of
                   Inl msg \<Rightarrow>
                     (Inl (Error (if msg = [] then ''Paystack payment init failed'' else msg)),
                      [PaystackInitialize body])
                 | Inr authorization_url \<Rightarrow> (Inr authorization_url, [PaystackInitialize body]))))"

text \<open>
  \<^verbatim>\<open>getPaymentLink\<close>: \<open>paymentReference\<close> is the template literal
  \<^verbatim>\<open>APP-${application._id}-${Date.now()}\<close>, \<open>paymentInit\<close> the object handed to
  \<^verbatim>\<open>initializeTransaction\<close>.
\<close>

definition paymentReference :: "string \<Rightarrow> nat \<Rightarrow> string" where
  "paymentReference applicationId t = ''APP-'' @ applicationId @ ''-'' @ decimal t"

definition paymentInit :: "services \<Rightarrow> application \<Rightarrow> opportunity option \<Rightarrow> user \<Rightarrow> init_args" where
  "paymentInit sv application opp u =
     \<lparr>reference = paymentReference (app_id application) (now sv),
      amount = (case opp of
                  None \<Rightarrow> Num 350
                | Some opportunity \<Rightarrow>
                    (case applicationFee opportunity of None \<Rightarrow> Num 350 | Some fee \<Rightarrow> fee)),
      currency = ''KES'',
      callbackUrl = baseUrl sv @ ''?payment=done&reference=APP-'' @ app_id application,
      cancelUrl = takeWhile (\<lambda>c. c \<noteq> CHR ''?'') (baseUrl sv) @ ''?cancelled=1'',
      customer_email = user_email u,
      customer_name = (if user_name u = [] then ''Applicant'' else user_name u)\<rparr>"

definition getPaymentLink ::
  "services \<Rightarrow> application \<Rightarrow> opportunity option \<Rightarrow> user
     \<Rightarrow> (js_error + string) \<times> provider_call list" where
  "getPaymentLink sv application opp u = initializeTransaction sv (paymentInit sv application opp u)"

text \<open>\<^verbatim>\<open>initiateSTKPush\<close> of \<^verbatim>\<open>utils/mpesa.js\<close>.\<close>

definition initiateSTKPush ::
  "services \<Rightarrow> string \<Rightarrow> jsnum \<Rightarrow> string \<Rightarrow> string
     \<Rightarrow> (js_error + string) \<times> provider_call list" where
  "initiateSTKPush sv phone amt ref description =
     (case getAccessToken sv of
        Inl e \<Rightarrow> (Inl e, [])
      | Inr token \<Rightarrow>
          (let formattedPhone =
                 (if startsWith phone ''254'' then phone
                  else ''254'' @ (if startsWith phone ''0'' then drop 1 phone else phone));
               body = \<lparr>BusinessShortCode = MPESA_SHORTCODE sv,
                        Password = stk_password sv,
                        Timestamp = stk_timestamp sv,
                        TransactionType = ''CustomerPayBillOnline'',
                        Amount = amt,
                        PartyA = formattedPhone,
                        PartyB = MPESA_SHORTCODE sv,
                        PhoneNumber = formattedPhone,
                        CallBackURL = MPESA_CALLBACK_URL sv,
                        AccountReference = ref,
                        TransactionDesc = description\<rparr>
           in (case daraja_stkpush sv token body of
                 Inl err \<Rightarrow> (Inl (Error (if err = [] then ''STK Push failed'' else err)), [StkPush body])
               | Inr checkoutRequestID \<Rightarrow> (Inr checkoutRequestID, [StkPush body]))))"

section \<open>The routes of the applications router\<close>

text \<open>
  The repository holds two versions of \<^verbatim>\<open>routes/applications.js\<close>: the one that
  charges through Paystack (with the webhook above, the administrator's status edit
  and the owner's update), and the one that charges through Daraja with an STK push.
  The route handlers are anonymous in the source; they are named here after what
  they do.
\<close>

record create_request =
  body_opportunityId :: string
  body_coverLetter :: "string option"
  body_phoneNumber :: "string option"
  file_resume :: "string option"
  file_recommendationLetter :: "string option"

definition existingApplication :: "user \<Rightarrow> string \<Rightarrow> store \<Rightarrow> application option" where
  "existingApplication u opportunityId' st =
     findOne (\<lambda>a. userId a = user_id u \<and> opportunityId a = opportunityId') st"

text \<open>
  The uploads of \<^verbatim>\<open>POST /\<close>, the same in both versions: the resume, then the
  recommendation letter when there is one.
\<close>

definition uploadDocuments ::
  "services \<Rightarrow> string \<Rightarrow> string option \<Rightarrow> js_error + string \<times> string option" where
  "uploadDocuments sv resumeFile recLetterFile =
     (case uploadToCloudinary sv resumeFile ''internship-platform/resumes'' of
        Inl e \<Rightarrow> Inl e
      | Inr resumeUrl' \<Rightarrow>
          (case recLetterFile of
             None \<Rightarrow> Inr (resumeUrl', None)
           | Some f \<Rightarrow>
               (case uploadToCloudinary sv f ''internship-platform/recommendations'' of
                  Inl e \<Rightarrow> Inl e
                | Inr url \<Rightarrow> Inr (resumeUrl', Some url))))"

text \<open>\<^verbatim>\<open>coverLetter || d\<close> on the text field of the multipart body.\<close>

definition coverLetterOr :: "string option \<Rightarrow> json option \<Rightarrow> json option" where
  "coverLetterOr c d = (case c of None \<Rightarrow> d | Some t \<Rightarrow> if t = [] then d else Some (JStr t))"

definition newApplication :: "services \<Rightarrow> user \<Rightarrow> create_request \<Rightarrow> string \<Rightarrow> string option \<Rightarrow> application" where
  "newApplication sv u rq resumeUrl' recommendationLetterUrl' =
     \<lparr>app_id = newObjectId sv,
      userId = user_id u,
      opportunityId = body_opportunityId rq,
      resumeUrl = resumeUrl',
      recommendationLetterUrl = recommendationLetterUrl',
      coverLetter = coverLetterOr (body_coverLetter rq) None,
      status = pending_payment,
      paymentTransactionId = None,
      amountPaid = None,
      mpesaCheckoutRequestId = None,
      mpesaTransactionId = None\<rparr>"

text \<open>
  The branch of \<^verbatim>\<open>POST /\<close> (Paystack version) that finds an application of the same
  user for the same opportunity in \<open>pending_payment\<close>: its documents are replaced.
\<close>

definition overwriteExisting ::
  "create_request \<Rightarrow> string \<Rightarrow> string option \<Rightarrow> application \<Rightarrow> application" where
  "overwriteExisting rq resumeUrl' recommendationLetterUrl' existing =
     existing\<lparr>resumeUrl := resumeUrl',
              recommendationLetterUrl :=
                (if file_recommendationLetter rq \<noteq> None then recommendationLetterUrl'
                 else recommendationLetterUrl existing),
              coverLetter := coverLetterOr (body_coverLetter rq) (coverLetter existing)\<rparr>"

text \<open>\<^verbatim>\<open>POST /\<close> of the Paystack version.\<close>

definition createApplication ::
  "services \<Rightarrow> opportunity list \<Rightarrow> user \<Rightarrow> create_request \<Rightarrow> store
     \<Rightarrow> response \<times> store \<times> provider_call list" where
  "createApplication sv opps u rq st =
     (case find (\<lambda>opp. opp_id opp = body_opportunityId rq) opps of
        None \<Rightarrow> (\<lparr>statusCode = 404, message = ''Opportunity not found''\<rparr>, st, [])
      | Some opportunity \<Rightarrow>
          if \<not> isActive opportunity
          then (\<lparr>statusCode = 400, message = ''Opportunity is closed''\<rparr>, st, [])
          else
            (let existing = existingApplication u (body_opportunityId rq) st
             in if (case existing of None \<Rightarrow> False | Some e \<Rightarrow> status e \<noteq> pending_payment)
                then (\<lparr>statusCode = 400, message = ''You have already applied''\<rparr>, st, [])
                else
                  (case file_resume rq of
                     None \<Rightarrow> (\<lparr>statusCode = 400, message = ''Resume is required''\<rparr>, st, [])
                   | Some resumeFile \<Rightarrow>
                       if opp_type opportunity = ''attachment'' \<and> file_recommendationLetter rq = None
                       then (\<lparr>statusCode = 400,
                               message = ''Recommendation letter is required for attachments''\<rparr>, st, [])
                       else
                         (case uploadDocuments sv resumeFile (file_recommendationLetter rq) of
                            Inl e \<Rightarrow> (\<lparr>statusCode = 500, message = errorMessage e\<rparr>, st, [])
                          | Inr (resumeUrl', recommendationLetterUrl') \<Rightarrow>
                              (let application =
                                     (case existing of
                                        Some e \<Rightarrow>
                                          overwriteExisting rq resumeUrl' recommendationLetterUrl' e
                                      | None \<Rightarrow>
                                          newApplication sv u rq resumeUrl' recommendationLetterUrl');
                                   st' = (case existing of
                                            Some e \<Rightarrow> save application st
                                          | None \<Rightarrow> create application st)
                               in (case getPaymentLink sv application (Some opportunity) u of
                                     (Inl e, calls) \<Rightarrow>
                                       (\<lparr>statusCode = 500, message = errorMessage e\<rparr>, st', calls)
                                   | (Inr paymentLink, calls) \<Rightarrow>
                                       (\<lparr>statusCode = 200,
                                          message = ''Application saved. Complete payment via the link to finish.''\<rparr>,
                                        st', calls)))))))"

text \<open>
  \<^verbatim>\<open>POST /\<close> of the Daraja version; \<open>mpesaAmount\<close> is
  \<^verbatim>\<open>opportunity.applicationFee || 500\<close>.
\<close>

definition mpesaAmount :: "jsnum option \<Rightarrow> jsnum" where
  "mpesaAmount fee =
     (case fee of None \<Rightarrow> Num 500 | Some f \<Rightarrow> if f = Num 0 \<or> f = NaN then Num 500 else f)"

definition createApplication_mpesa ::
  "services \<Rightarrow> opportunity list \<Rightarrow> user \<Rightarrow> create_request \<Rightarrow> store
     \<Rightarrow> response \<times> store \<times> provider_call list" where
  "createApplication_mpesa sv opps u rq st =
     (case find (\<lambda>opp. opp_id opp = body_opportunityId rq) opps of
        None \<Rightarrow> (\<lparr>statusCode = 404, message = ''Opportunity not found''\<rparr>, st, [])
      | Some opportunity \<Rightarrow>
          if \<not> isActive opportunity
          then (\<lparr>statusCode = 400, message = ''Opportunity is closed''\<rparr>, st, [])
          else
            (let existing = existingApplication u (body_opportunityId rq) st
             in if (case existing of None \<Rightarrow> False | Some e \<Rightarrow> status e \<noteq> pending_payment)
                then (\<lparr>statusCode = 400, message = ''You have already applied''\<rparr>, st, [])
                else
                  (case file_resume rq of
                     None \<Rightarrow> (\<lparr>statusCode = 400, message = ''Resume is required''\<rparr>, st, [])
                   | Some resumeFile \<Rightarrow>
                       if opp_type opportunity = ''attachment'' \<and> file_recommendationLetter rq = None
                       then (\<lparr>statusCode = 400,
                               message = ''Recommendation letter is required for attachments''\<rparr>, st, [])
                       else
                         (case uploadDocuments sv resumeFile (file_recommendationLetter rq) of
                            Inl e \<Rightarrow> (\<lparr>statusCode = 500, message = errorMessage e\<rparr>, st, [])
                          | Inr (resumeUrl', recommendationLetterUrl') \<Rightarrow>
                              (let application =
                                     newApplication sv u rq resumeUrl' recommendationLetterUrl';
                                   st' = create application st;
                                   amount' = mpesaAmount (applicationFee opportunity)
                               in (case body_phoneNumber rq of
                                     None \<Rightarrow>
                                       (\<lparr>statusCode = 200,
                                          message = ''Application saved. Provide phone number to complete payment via M-Pesa.''\<rparr>,
                                        st', [])
                                   | Some phoneNumber \<Rightarrow>
                                       if phoneNumber = []
                                       then (\<lparr>statusCode = 200,
                                               message = ''Application saved. Provide phone number to complete payment via M-Pesa.''\<rparr>,
                                             st', [])
                                       else
                                         (case initiateSTKPush sv phoneNumber amount'
                                                 (''APP-'' @ app_id application)
                                                 (''Application fee: '' @ title opportunity) of
                                            (Inl e, calls) \<Rightarrow>
                                              (\<lparr>statusCode = 500, message = errorMessage e\<rparr>, st', calls)
                                          | (Inr checkoutRequestID, calls) \<Rightarrow>
                                              (\<lparr>statusCode = 200,
                                                 message = ''Enter your M-Pesa PIN on your phone to complete payment.''\<rparr>,
                                               save (application\<lparr>mpesaCheckoutRequestId := Some checkoutRequestID\<rparr>) st',
                                               calls))))))))"

text \<open>\<^verbatim>\<open>POST /:id/pay\<close> of the Paystack version: nothing is written to the store.\<close>

definition payForApplication ::
  "services \<Rightarrow> opportunity list \<Rightarrow> user \<Rightarrow> string \<Rightarrow> store \<Rightarrow> response \<times> provider_call list" where
  "payForApplication sv opps u idParam st =
     (case findOne (\<lambda>a. app_id a = idParam \<and> userId a = user_id u \<and> status a = pending_payment) st of
        None \<Rightarrow> (\<lparr>statusCode = 404, message = ''Application not found''\<rparr>, [])
      | Some application \<Rightarrow>
          (case getPaymentLink sv application
                  (find (\<lambda>opp. opp_id opp = opportunityId application) opps) u of
             (Inl e, calls) \<Rightarrow> (\<lparr>statusCode = 500, message = errorMessage e\<rparr>, calls)
           | (Inr paymentLink, calls) \<Rightarrow>
               (\<lparr>statusCode = 200,
                  message = ''Complete payment via the link to finish your application.''\<rparr>, calls)))"

text \<open>\<^verbatim>\<open>POST /:id/pay\<close> of the Daraja version.\<close>

definition payForApplication_mpesa ::
  "services \<Rightarrow> opportunity list \<Rightarrow> user \<Rightarrow> string \<Rightarrow> string option \<Rightarrow> store
     \<Rightarrow> response \<times> store \<times> provider_call list" where
  "payForApplication_mpesa sv opps u idParam phoneNumber st =
     (case phoneNumber of
        None \<Rightarrow> (\<lparr>statusCode = 400, message = ''Phone number is required''\<rparr>, st, [])
      | Some phone \<Rightarrow>
          if phone = [] then (\<lparr>statusCode = 400, message = ''Phone number is required''\<rparr>, st, [])
          else
            (case findOne (\<lambda>a. app_id a = idParam \<and> userId a = user_id u \<and> status a = pending_payment) st of
               None \<Rightarrow> (\<lparr>statusCode = 404, message = ''Application not found''\<rparr>, st, [])
             | Some application \<Rightarrow>
                 (let opp = find (\<lambda>opp. opp_id opp = opportunityId application) opps;
                      amount' = mpesaAmount (case opp of None \<Rightarrow> None | Some opportunity \<Rightarrow> applicationFee opportunity);
                      ref = ''APP-'' @ app_id application
                  in (case initiateSTKPush sv phone amount' ref
                            (''Application fee: '' @ (case opp of None \<Rightarrow> ''undefined'' | Some opportunity \<Rightarrow> title opportunity)) of
                        (Inl e, calls) \<Rightarrow> (\<lparr>statusCode = 500, message = errorMessage e\<rparr>, st, calls)
                      | (Inr checkoutRequestID, calls) \<Rightarrow>
                          (\<lparr>statusCode = 200,
                             message = ''Enter your M-Pesa PIN on your phone to complete payment.''\<rparr>,
                           save (application\<lparr>mpesaCheckoutRequestId := Some checkoutRequestID\<rparr>) st,
                           calls)))))"

text \<open>
  \<^verbatim>\<open>POST /mpesa-callback\<close> of the Daraja version, after the acknowledgement has been
  sent; the argument is \<^verbatim>\<open>req.body\<close> as \<^verbatim>\<open>express.json()\<close> leaves it. \<open>stkResult\<close>
  is \<^verbatim>\<open>body?.Body?.stkCallback\<close>, \<open>callbackItems\<close> is
  \<^verbatim>\<open>result.CallbackMetadata?.Item || []\<close>, \<open>findItem\<close> is
  \<^verbatim>\<open>callbackMetadata.find((i) => i.Name === key)\<close> on an array and \<open>getItem\<close> the
  closure of the handler. A value of \<^verbatim>\<open>Item\<close> that is truthy and no array has no
  \<^verbatim>\<open>find\<close>, and reading \<^verbatim>\<open>Name\<close> of an element \<^verbatim>\<open>null\<close> throws; both happen before
  the store is read.
\<close>

definition stkResult :: "json \<Rightarrow> json option" where
  "stkResult body = js_prop (js_prop (Some body) ''Body'') ''stkCallback''"

definition callbackItems :: "json option \<Rightarrow> json" where
  "callbackItems result = orElse (js_prop (js_prop result ''CallbackMetadata'') ''Item'') (JArr [])"

fun findItem :: "string \<Rightarrow> json list \<Rightarrow> js_error + json option" where
  "findItem key [] = Inr None"
| "findItem key (i # items) =
     (if i = JNull then Inl TypeError
      else if js_prop (Some i) ''Name'' = Some (JStr key) then Inr (Some i)
      else findItem key items)"

definition getItem :: "json \<Rightarrow> string \<Rightarrow> js_error + json option" where
  "getItem callbackMetadata key =
     (case callbackMetadata of
        JArr items \<Rightarrow>
          (case findItem key items of Inl e \<Rightarrow> Inl e | Inr found \<Rightarrow> Inr (js_prop found ''Value''))
      | _ \<Rightarrow> Inl TypeError)"

text \<open>
  The assignments of the callback to the document it has found; \<open>Inl\<close> is the error
  with which \<^verbatim>\<open>save\<close> rejects, and nothing is written then.
\<close>

definition callbackUpdate ::
  "js_runtime \<Rightarrow> bool \<Rightarrow> json option \<Rightarrow> json option \<Rightarrow> application
     \<Rightarrow> js_error + application" where
  "callbackUpdate rt success mpesaTransactionId' amount' application =
     (if success
      then (case assignString rt mpesaTransactionId' of
              Inl e \<Rightarrow> Inl e
            | Inr t \<Rightarrow>
                (case assignNumber rt amount' of
                   Inl e \<Rightarrow> Inl e
                 | Inr n \<Rightarrow>
                     Inr (application\<lparr>status := submitted,
                                       mpesaTransactionId := t,
                                       amountPaid := n,
                                       mpesaCheckoutRequestId := None\<rparr>)))
      else Inr (application\<lparr>status := pending_payment, mpesaCheckoutRequestId := None\<rparr>))"

definition mpesaCallback :: "js_runtime \<Rightarrow> json \<Rightarrow> store \<Rightarrow> js_error + store" where
  "mpesaCallback rt body st =
     (let result = stkResult body
      in if \<not> truthy result then Inr st
         else
           (let checkoutRequestId = js_prop result ''CheckoutRequestID'';
                success = (js_prop result ''ResultCode'' = Some (JNum (Num 0)));
                callbackMetadata = callbackItems result
            in (case getItem callbackMetadata ''MpesaReceiptNumber'' of
                  Inl e \<Rightarrow> Inl e
                | Inr mpesaTransactionId' \<Rightarrow>
                    (case getItem callbackMetadata ''Amount'' of
                       Inl e \<Rightarrow> Inl e
                     | Inr amount' \<Rightarrow>
                         (case findOne (checkoutFilter rt checkoutRequestId) st of
                            None \<Rightarrow> Inr st
                          | Some application \<Rightarrow>
                              (case callbackUpdate rt success mpesaTransactionId' amount'
                                      application of
                                 Inl e \<Rightarrow> Inl e
                               | Inr application' \<Rightarrow> Inr (save application' st)))))))"

text \<open>\<^verbatim>\<open>PATCH /admin/:id/status\<close>, behind the administrator check.\<close>

definition allowed :: "string list" where
  "allowed = [''submitted'', ''under_review'', ''shortlisted'', ''rejected'', ''accepted'']"

definition statusOfString :: "string \<Rightarrow> status option" where
  "statusOfString s =
     (if s = ''pending_payment'' then Some pending_payment
      else if s = ''submitted'' then Some submitted
      else if s = ''under_review'' then Some under_review
      else if s = ''shortlisted'' then Some shortlisted
      else if s = ''rejected'' then Some rejected
      else if s = ''accepted'' then Some accepted
      else None)"

definition invalidStatus :: response where
  "invalidStatus =
     \<lparr>statusCode = 400,
      message = ''Invalid status. Use: submitted, under_review, shortlisted, rejected, accepted''\<rparr>"

definition adminUpdateStatus :: "string \<Rightarrow> json \<Rightarrow> store \<Rightarrow> response \<times> store" where
  "adminUpdateStatus idParam body st =
     (let status' = js_prop (Some body) ''status''
      in if \<not> truthy status' then (invalidStatus, st)
         else
           (case status' of
              Some (JStr s) \<Rightarrow>
                if s \<notin> set allowed then (invalidStatus, st)
                else
                  (case statusOfString s of
                     None \<Rightarrow> (invalidStatus, st)
                   | Some new \<Rightarrow>
                       (case findById idParam st of
                          None \<Rightarrow> (\<lparr>statusCode = 404, message = ''Application not found''\<rparr>, st)
                        | Some application \<Rightarrow>
                            (\<lparr>statusCode = 200, message = []\<rparr>,
                             save (application\<lparr>status := new\<rparr>) st)))
            | _ \<Rightarrow> (invalidStatus, st)))"

text \<open>\<^verbatim>\<open>PATCH /:id\<close>, the owner's update.\<close>

definition updateApplication :: "user \<Rightarrow> string \<Rightarrow> json \<Rightarrow> store \<Rightarrow> response \<times> store" where
  "updateApplication u idParam body st =
     (case findOne (\<lambda>a. app_id a = idParam \<and> userId a = user_id u) st of
        None \<Rightarrow> (\<lparr>statusCode = 404, message = ''Application not found''\<rparr>, st)
      | Some application \<Rightarrow>
          if status application \<noteq> pending_payment \<and> status application \<noteq> submitted
          then (\<lparr>statusCode = 400, message = ''Application can no longer be updated''\<rparr>, st)
          else
            (let coverLetter' = js_prop (Some body) ''coverLetter'';
                 application' = (case coverLetter' of
                                   None \<Rightarrow> application
                                 | Some v \<Rightarrow> application\<lparr>coverLetter := Some v\<rparr>)
             in (\<lparr>statusCode = 200, message = []\<rparr>, save application' st)))"

text \<open>
  \<^verbatim>\<open>DELETE /:id\<close>, the owner's withdrawal; \<^verbatim>\<open>findByIdAndDelete\<close> removes the first
  document with the identifier.
\<close>

fun findByIdAndDelete :: "string \<Rightarrow> store \<Rightarrow> store" where
  "findByIdAndDelete i [] = []"
| "findByIdAndDelete i (b # st) = (if app_id b = i then st else b # findByIdAndDelete i st)"

definition withdrawApplication :: "user \<Rightarrow> string \<Rightarrow> store \<Rightarrow> response \<times> store" where
  "withdrawApplication u idParam st =
     (case findOne (\<lambda>a. app_id a = idParam \<and> userId a = user_id u) st of
        None \<Rightarrow> (\<lparr>statusCode = 404, message = ''Application not found''\<rparr>, st)
      | Some application \<Rightarrow>
          if status application \<notin> set [pending_payment, submitted]
          then (\<lparr>statusCode = 400, message = ''Application cannot be withdrawn''\<rparr>, st)
          else (\<lparr>statusCode = 200, message = ''Application withdrawn''\<rparr>,
                findByIdAndDelete (app_id application) st))"

section \<open>Sequences of lifecycle operations\<close>

text \<open>
  The operations that write the status of an application: the two payment callbacks
  and the administrator's edit.
\<close>

datatype lifecycle_op =
    WebhookDelivery webhook_request
  | MpesaCallback json
  | AdminStatusEdit string json

fun step :: "js_runtime \<Rightarrow> lifecycle_op \<Rightarrow> store \<Rightarrow> store" where
  "step rt (WebhookDelivery req) st = store_after st (paystackWebhookHandler rt req st)"
| "step rt (MpesaCallback body) st = store_after st (mpesaCallback rt body st)"
| "step rt (AdminStatusEdit idParam body) st = snd (adminUpdateStatus idParam body st)"

fun run :: "js_runtime \<Rightarrow> lifecycle_op list \<Rightarrow> store \<Rightarrow> store" where
  "run rt [] st = st"
| "run rt (op # ops) st = run rt ops (step rt op st)"







text \<open>No two applications of the store are of the same user for the same opportunity.\<close>

definition one_per_pair :: "store \<Rightarrow> bool" where
  "one_per_pair st = distinct (map (\<lambda>a. (userId a, opportunityId a)) st)"

text \<open>The reference and the amount a call to a provider carries.\<close>

fun callReference :: "provider_call \<Rightarrow> string" where
  "callReference (PaystackInitialize b) = body_reference b"
| "callReference (StkPush b) = AccountReference b"

fun callAmount :: "provider_call \<Rightarrow> jsnum" where
  "callAmount (PaystackInitialize b) = body_amount b"
| "callAmount (StkPush b) = Amount b"

section \<open>Sample data\<close>

text \<open>
  A delivery as Paystack sends it, an application waiting for its payment, and a
  runtime that parses that one payload. The statements below hold for every runtime;
  the samples show them at work.
\<close>

definition sample_body :: string where
  \<open>sample_body = ''{"event":"charge.success","data":{"reference":"APP-65f0c0ffee0123456789abcd-1700000000000","id":7,"amount":35000}}''\<close>

definition sample_json :: json where
  "sample_json =
     JObj [(''event'', JStr ''charge.success''),
           (''data'', JObj [(''reference'', JStr ''APP-65f0c0ffee0123456789abcd-1700000000000''),
                            (''id'', JNum (Num 7)),
                            (''amount'', JNum (Num 35000))])]"

text \<open>A delivery with neither \<^verbatim>\<open>id\<close> nor \<^verbatim>\<open>amount\<close>, and one for another system.\<close>

definition sample_body_bare :: string where
  \<open>sample_body_bare = ''{"event":"charge.success","data":{"reference":"APP-65f0c0ffee0123456789abcd"}}''\<close>

definition sample_json_bare :: json where
  "sample_json_bare =
     JObj [(''event'', JStr ''charge.success''),
           (''data'', JObj [(''reference'', JStr ''APP-65f0c0ffee0123456789abcd'')])]"

definition sample_body_foreign :: string where
  \<open>sample_body_foreign = ''{"event":"charge.success","data":{"reference":"INV-20240001","id":8,"amount":35000}}''\<close>

definition sample_json_foreign :: json where
  "sample_json_foreign =
     JObj [(''event'', JStr ''charge.success''),
           (''data'', JObj [(''reference'', JStr ''INV-20240001''),
                            (''id'', JNum (Num 8)),
                            (''amount'', JNum (Num 35000))])]"

definition sample_runtime :: js_runtime where
  "sample_runtime =
     \<lparr>JSON_parse = (\<lambda>s. if s = sample_body then Some sample_json
                         else if s = sample_body_bare then Some sample_json_bare
                         else if s = sample_body_foreign then Some sample_json_foreign
                         else None),
      ToString = (\<lambda>v. case v of JNum (Num x) \<Rightarrow> decimal (nat \<lfloor>x\<rfloor>) | _ \<Rightarrow> []),
      ToNumber = (\<lambda>v. NaN),
      castString = (\<lambda>v. Inl (Error ''Cast to string failed'')),
      castNumber = (\<lambda>v. Inl (Error ''Cast to Number failed'')),
      castFilter = (\<lambda>v s. False)\<rparr>"

definition sample_request_bare :: webhook_request where
  "sample_request_bare = \<lparr>rawBody = sample_body_bare, signature = Some ''00''\<rparr>"

definition sample_request_foreign :: webhook_request where
  "sample_request_foreign = \<lparr>rawBody = sample_body_foreign, signature = Some ''00''\<rparr>"

definition sample_user :: user where
  "sample_user = \<lparr>user_id = ''u1'', user_email = ''ann@example.org'', user_name = ''Ann''\<rparr>"

definition sample_request :: webhook_request where
  "sample_request = \<lparr>rawBody = sample_body, signature = Some ''00''\<rparr>"


definition sample_callback_paid :: json where
  "sample_callback_paid =
     JObj [(''Body'',
            JObj [(''stkCallback'',
                   JObj [(''MerchantRequestID'', JStr ''29115-34620561-1''),
                         (''CheckoutRequestID'', JStr ''ws_CO_1''),
                         (''ResultCode'', JNum (Num 0)),
                         (''ResultDesc'', JStr ''The service request is processed successfully.''),
                         (''CallbackMetadata'',
                          JObj [(''Item'',
                                 JArr [JObj [(''Name'', JStr ''Amount''),
                                             (''Value'', JNum (Num 500))],
                                       JObj [(''Name'', JStr ''MpesaReceiptNumber''),
                                             (''Value'', JStr ''NLJ7RT61SV'')],
                                       JObj [(''Name'', JStr ''PhoneNumber''),
                                             (''Value'', JNum (Num 254712345678))]])])])])]"

text \<open>A callback for an earlier checkout request, \<^verbatim>\<open>ws_CO_0\<close>, that has been paid.\<close>

definition sample_callback_superseded :: json where
  "sample_callback_superseded =
     JObj [(''Body'',
            JObj [(''stkCallback'',
                   JObj [(''MerchantRequestID'', JStr ''29115-34620561-0''),
                         (''CheckoutRequestID'', JStr ''ws_CO_0''),
                         (''ResultCode'', JNum (Num 0)),
                         (''ResultDesc'', JStr ''The service request is processed successfully.''),
                         (''CallbackMetadata'',
                          JObj [(''Item'',
                                 JArr [JObj [(''Name'', JStr ''Amount''),
                                             (''Value'', JNum (Num 500))],
                                       JObj [(''Name'', JStr ''MpesaReceiptNumber''),
                                             (''Value'', JStr ''NLJ1AB23CD'')]])])])])]"

definition sample_app :: application where
  "sample_app =
     \<lparr>app_id = ''65f0c0ffee0123456789abcd'', userId = ''u1'', opportunityId = ''o1'',
      resumeUrl = ''https://files.example/resume.pdf'', recommendationLetterUrl = None,
      coverLetter = None, status = pending_payment, paymentTransactionId = None,
      amountPaid = None, mpesaCheckoutRequestId = None, mpesaTransactionId = None\<rparr>"

text \<open>
  An opportunity that carries no fee, a request to apply to it, and collaborators that
  accept every call.
\<close>

definition sample_opportunity :: opportunity where
  "sample_opportunity =
     \<lparr>opp_id = ''o1'', isActive = True, opp_type = ''internship'', applicationFee = None,
      title = ''Data intern''\<rparr>"

definition sample_create_request :: create_request where
  "sample_create_request =
     \<lparr>body_opportunityId = ''o1'', body_coverLetter = None,
      body_phoneNumber = Some ''0712345678'', file_resume = Some ''%PDF-1.7'',
      file_recommendationLetter = None\<rparr>"

definition sample_services :: services where
  "sample_services =
     \<lparr>PAYSTACK_SECRET_KEY = Some ''sk_live_1'',
      baseUrl = ''https://ias.example/app/applications'',
      now = 1700000050000,
      newObjectId = ''65f0c0ffee0123456789abce'',
      uploadToCloudinary = (\<lambda>buffer folder. Inr (''https://files.example/'' @ folder)),
      paystack_initialize = (\<lambda>body. Inr ''https://checkout.paystack.com/abc''),
      MPESA_SHORTCODE = ''174379'',
      MPESA_CALLBACK_URL = ''https://ias.example/api/applications/mpesa-callback'',
      stk_timestamp = ''20231114221410'',
      stk_password = ''cGFzc3dvcmQ='',
      getAccessToken = Inr ''token'',
      daraja_stkpush = (\<lambda>token body. Inr ''ws_CO_1'')\<rparr>"

section \<open>The store\<close>

lemma findById_Some_app_id: "findById i st = Some a \<Longrightarrow> app_id a = i"
  by (auto simp: findById_def findOne_def find_Some_iff)

lemma findOne_Some: "findOne P st = Some a \<Longrightarrow> P a \<and> a \<in> set st"
  by (auto simp: findOne_def find_Some_iff)

lemma findById_save:
  "findById i st = Some a \<Longrightarrow> app_id a' = i \<Longrightarrow> findById i (save a' st) = Some a'"
  by (induction st) (auto simp: findById_def findOne_def split: if_splits)

lemma length_save [simp]: "length (save a st) = length st"
  by (induction st) auto

lemma map_app_id_save [simp]: "map app_id (save a st) = map app_id st"
  by (induction st) auto

section \<open>The sample delivery\<close>

lemma sample_chargeEvent:
  "chargeEvent sample_runtime sample_request =
     Inr (Some (''APP-65f0c0ffee0123456789abcd-1700000000000'',
                Some (JNum (Num 7)), Some (JNum (Num 35000))))"
  by (simp add: chargeEvent_def parseBody_def sample_request_def sample_runtime_def sample_json_def
      sample_body_def js_prop_def startsWith_def)

lemma sample_applicationIdOf:
  "applicationIdOf ''APP-65f0c0ffee0123456789abcd-1700000000000'' = ''65f0c0ffee0123456789abcd''"
  by (simp add: applicationIdOf_def replace_APP_prefix_def startsWith_def isDigit_def)

lemma sample_findById:
  "findById ''65f0c0ffee0123456789abcd'' [sample_app] = Some sample_app"
  by (simp add: findById_def findOne_def sample_app_def)

section \<open>Replaying a delivery\<close>

text \<open>
  C2. A verified \<^verbatim>\<open>charge.success\<close> delivery for an application that is in
  \<open>pending_payment\<close> writes one document: its status is \<open>submitted\<close> and its
  \<open>amountPaid\<close> is the amount of the payload over 100. A second delivery of the
  same payload finds that document, no longer in \<open>pending_payment\<close>, and leaves the
  store as the first delivery left it.
\<close>

theorem webhook_replay_idempotent:
  assumes ev: "chargeEvent rt req = Inr (Some (r, i, amt))"
    and found: "findById (applicationIdOf r) st = Some a"
    and pending: "status a = pending_payment"
  shows "\<exists>a'. paystackWebhookHandler rt req st = Inr (save a' st)
           \<and> findById (applicationIdOf r) (save a' st) = Some a'
           \<and> status a' = submitted
           \<and> amountPaid a' =
               (case nonNull amt of None \<Rightarrow> amountPaid a
                | Some v \<Rightarrow> Some (js_div (js_Number rt v) 100))
           \<and> paystackWebhookHandler rt req (save a' st) = Inr (save a' st)"
proof -
  define a2 where "a2 = a\<lparr>status := submitted,
      paymentTransactionId := Some (js_String rt (coalesce i (JStr r)))\<rparr>"
  define a' where "a' = (case nonNull amt of None \<Rightarrow> a2
      | Some v \<Rightarrow> a2\<lparr>amountPaid := Some (js_div (js_Number rt v) 100)\<rparr>)"
  have id: "app_id a' = applicationIdOf r"
    using findById_Some_app_id[OF found] by (simp add: a'_def a2_def split: option.splits)
  have st: "status a' = submitted"
    by (simp add: a'_def a2_def split: option.splits)
  have first: "paystackWebhookHandler rt req st = Inr (save a' st)"
    using ev found pending
    by (simp add: paystackWebhookHandler_def confirmPayment_def Let_def a'_def a2_def
        split: option.splits)
  have look: "findById (applicationIdOf r) (save a' st) = Some a'"
    using findById_save[OF found id] .
  have second: "paystackWebhookHandler rt req (save a' st) = Inr (save a' st)"
    using ev look st by (simp add: paystackWebhookHandler_def confirmPayment_def Let_def)
  have paid: "amountPaid a' =
      (case nonNull amt of None \<Rightarrow> amountPaid a
       | Some v \<Rightarrow> Some (js_div (js_Number rt v) 100))"
    by (simp add: a'_def a2_def split: option.splits)
  show ?thesis using first look st paid second by blast
qed

theorem webhook_replay_idempotent_witness:
  "chargeEvent sample_runtime sample_request =
     Inr (Some (''APP-65f0c0ffee0123456789abcd-1700000000000'',
                Some (JNum (Num 7)), Some (JNum (Num 35000))))
   \<and> findById (applicationIdOf ''APP-65f0c0ffee0123456789abcd-1700000000000'') [sample_app]
       = Some sample_app
   \<and> status sample_app = pending_payment
   \<and> (\<exists>a'. paystackWebhookHandler sample_runtime sample_request [sample_app]
              = Inr (save a' [sample_app])
           \<and> status a' = submitted
           \<and> amountPaid a' = Some (js_div (Num 35000) 100)
           \<and> paystackWebhookHandler sample_runtime sample_request (save a' [sample_app])
              = Inr (save a' [sample_app]))"
proof -
  have h2: "findById (applicationIdOf ''APP-65f0c0ffee0123456789abcd-1700000000000'') [sample_app]
      = Some sample_app"
    by (simp add: sample_applicationIdOf sample_findById)
  have h3: "status sample_app = pending_payment"
    by (simp add: sample_app_def)
  from webhook_replay_idempotent[OF sample_chargeEvent h2 h3]
  show ?thesis using sample_chargeEvent h2 h3 by (auto simp: js_Number_def)
qed

lemma sample_chargeEvent_bare:
  "chargeEvent sample_runtime sample_request_bare =
     Inr (Some (''APP-65f0c0ffee0123456789abcd'', None, None))"
  by (simp add: chargeEvent_def parseBody_def sample_request_bare_def sample_runtime_def
      sample_json_bare_def sample_body_def sample_body_bare_def js_prop_def startsWith_def)

lemma sample_foreign_reference:
  "js_prop (js_prop (parseBody sample_runtime sample_request_foreign) ''data'') ''reference''
     = Some (JStr ''INV-20240001'')"
  by (simp add: parseBody_def sample_request_foreign_def sample_runtime_def
      sample_json_foreign_def sample_body_def sample_body_bare_def sample_body_foreign_def
      js_prop_def)

lemma sample_status: "status sample_app = pending_payment"
  by (simp add: sample_app_def)

lemma sample_app_id: "app_id sample_app = ''65f0c0ffee0123456789abcd''"
  by (simp add: sample_app_def)

section \<open>What a delivery does to the store\<close>

lemma chargeEvent_SomeD:
  assumes "chargeEvent rt req = Inr (Some (r, i, amt))"
  shows "js_prop (parseBody rt req) ''event'' = Some (JStr ''charge.success'')
       \<and> js_prop (js_prop (parseBody rt req) ''data'') ''reference'' = Some (JStr r)
       \<and> startsWith r ''APP-''
       \<and> i = js_prop (js_prop (parseBody rt req) ''data'') ''id''
       \<and> amt = js_prop (js_prop (parseBody rt req) ''data'') ''amount''"
  using assms
  by (auto simp: chargeEvent_def Let_def split: option.splits if_splits json.splits)

lemma handler_on_event:
  "chargeEvent rt req = Inr (Some (r, i, amt)) \<Longrightarrow>
   paystackWebhookHandler rt req st =
     Inr (case findById (applicationIdOf r) st of
            None \<Rightarrow> st
          | Some a \<Rightarrow>
              if status a \<noteq> pending_payment then st
              else save (case nonNull amt of
                           None \<Rightarrow> a\<lparr>status := submitted,
                                      paymentTransactionId := Some (js_String rt (coalesce i (JStr r)))\<rparr>
                         | Some v \<Rightarrow> a\<lparr>status := submitted,
                                        paymentTransactionId := Some (js_String rt (coalesce i (JStr r))),
                                        amountPaid := Some (js_div (js_Number rt v) 100)\<rparr>) st)"
  by (simp add: paystackWebhookHandler_def confirmPayment_def Let_def split: option.splits)

lemma handler_no_APP_prefix:
  assumes "\<forall>r. js_prop (js_prop (parseBody rt req) ''data'') ''reference'' = Some (JStr r)
             \<longrightarrow> \<not> startsWith r ''APP-''"
  shows "store_after st (paystackWebhookHandler rt req st) = st"
proof (cases "chargeEvent rt req")
  case (Inl e)
  then show ?thesis by (simp add: paystackWebhookHandler_def store_after_def)
next
  case (Inr x)
  show ?thesis
  proof (cases x)
    case None
    with Inr show ?thesis by (simp add: paystackWebhookHandler_def store_after_def)
  next
    case (Some ev)
    obtain r i amt where "ev = (r, i, amt)" by (cases ev)
    with Inr Some have "chargeEvent rt req = Inr (Some (r, i, amt))" by simp
    from chargeEvent_SomeD[OF this] assms show ?thesis by blast
  qed
qed

text \<open>
  C10. A \<^verbatim>\<open>charge.success\<close> delivery whose payload has no \<^verbatim>\<open>amount\<close> still moves
  an application that is in \<open>pending_payment\<close> to \<open>submitted\<close>;
  \<open>paymentTransactionId\<close> becomes the string of the provider's transaction id, or
  the reference when the id is absent too; every other attribute, \<open>amountPaid\<close>
  among them, stays as it was.
\<close>

theorem charge_success_without_amount:
  assumes ev: "chargeEvent rt req = Inr (Some (r, i, None))"
    and found: "findById (applicationIdOf r) st = Some a"
    and pending: "status a = pending_payment"
  shows "paystackWebhookHandler rt req st =
           Inr (save (a\<lparr>status := submitted,
                         paymentTransactionId :=
                           Some (case nonNull i of None \<Rightarrow> r | Some v \<Rightarrow> js_String rt v)\<rparr>) st)
       \<and> amountPaid (a\<lparr>status := submitted,
                        paymentTransactionId :=
                          Some (case nonNull i of None \<Rightarrow> r | Some v \<Rightarrow> js_String rt v)\<rparr>)
           = amountPaid a"
  using found pending
  by (simp add: handler_on_event[OF ev] coalesce_def js_String_def split: option.splits)

theorem charge_success_without_amount_witness:
  "chargeEvent sample_runtime sample_request_bare
     = Inr (Some (''APP-65f0c0ffee0123456789abcd'', None, None))
   \<and> findById (applicationIdOf ''APP-65f0c0ffee0123456789abcd'') [sample_app] = Some sample_app
   \<and> status sample_app = pending_payment
   \<and> paystackWebhookHandler sample_runtime sample_request_bare [sample_app]
       = Inr [sample_app\<lparr>status := submitted,
                          paymentTransactionId := Some ''APP-65f0c0ffee0123456789abcd''\<rparr>]"
proof -
  have h2: "findById (applicationIdOf ''APP-65f0c0ffee0123456789abcd'') [sample_app]
      = Some sample_app"
    by (simp add: applicationIdOf_def replace_APP_prefix_def startsWith_def isDigit_def
        sample_findById)
  have h3: "status sample_app = pending_payment"
    by (simp add: sample_app_def)
  from charge_success_without_amount[OF sample_chargeEvent_bare h2 h3]
  show ?thesis using sample_chargeEvent_bare h2 h3 by simp
qed

section \<open>From the reference to the application\<close>

lemma replace_suffix_no_dash:
  "CHR ''-'' \<notin> set s \<Longrightarrow> replace_dash_digits_suffix s = s"
  by (induction s) auto

lemma replace_suffix_append:
  "CHR ''-'' \<notin> set s \<Longrightarrow> ds \<noteq> [] \<Longrightarrow> list_all isDigit ds
     \<Longrightarrow> replace_dash_digits_suffix (s @ CHR ''-'' # ds) = s"
  by (induction s) auto

lemma replace_APP_prefix_APP: "replace_APP_prefix (''APP-'' @ s) = s"
  by (simp add: replace_APP_prefix_def startsWith_def)

lemma applicationIdOf_plain:
  "CHR ''-'' \<notin> set aid \<Longrightarrow> applicationIdOf (''APP-'' @ aid) = aid"
  unfolding applicationIdOf_def replace_APP_prefix_APP by (rule replace_suffix_no_dash)

lemma applicationIdOf_suffixed:
  "CHR ''-'' \<notin> set aid \<Longrightarrow> ds \<noteq> [] \<Longrightarrow> list_all isDigit ds
     \<Longrightarrow> applicationIdOf (''APP-'' @ aid @ ''-'' @ ds) = aid"
  unfolding applicationIdOf_def replace_APP_prefix_APP by (simp add: replace_suffix_append)

text \<open>
  C6. The identifiers of the applications are ObjectIds, printed as hexadecimal
  digits: there is no dash in them. For a reference \<^verbatim>\<open>APP-<applicationId>\<close> or
  \<^verbatim>\<open>APP-<applicationId>-<digits>\<close> the handler recovers exactly \<open>applicationId\<close>, looks
  that application up and touches no other; a delivery whose reference is not a
  string that starts with \<^verbatim>\<open>APP-\<close> leaves the store as it was.
\<close>

theorem webhook_reference_resolution:
  "(CHR ''-'' \<notin> set aid \<and> ds \<noteq> [] \<and> list_all isDigit ds
      \<and> (r = ''APP-'' @ aid \<or> r = ''APP-'' @ aid @ ''-'' @ ds)
      \<and> chargeEvent rt req = Inr (Some (r, i, amt))
    \<longrightarrow> applicationIdOf r = aid
        \<and> paystackWebhookHandler rt req st =
            Inr (case findById aid st of
                   None \<Rightarrow> st
                 | Some a \<Rightarrow>
                     if status a \<noteq> pending_payment then st
                     else save (case nonNull amt of
                                  None \<Rightarrow> a\<lparr>status := submitted,
                                             paymentTransactionId :=
                                               Some (js_String rt (coalesce i (JStr r)))\<rparr>
                                | Some v \<Rightarrow> a\<lparr>status := submitted,
                                               paymentTransactionId :=
                                                 Some (js_String rt (coalesce i (JStr r))),
                                               amountPaid :=
                                                 Some (js_div (js_Number rt v) 100)\<rparr>) st))
   \<and> ((\<forall>r'. js_prop (js_prop (parseBody rt req) ''data'') ''reference'' = Some (JStr r')
              \<longrightarrow> \<not> startsWith r' ''APP-'')
        \<longrightarrow> store_after st (paystackWebhookHandler rt req st) = st)"
proof (intro conjI impI)
  assume h: "CHR ''-'' \<notin> set aid \<and> ds \<noteq> [] \<and> list_all isDigit ds
      \<and> (r = ''APP-'' @ aid \<or> r = ''APP-'' @ aid @ ''-'' @ ds)
      \<and> chargeEvent rt req = Inr (Some (r, i, amt))"
  then show id: "applicationIdOf r = aid"
    using applicationIdOf_plain[of aid] applicationIdOf_suffixed[of aid ds] by blast
  from h have ev: "chargeEvent rt req = Inr (Some (r, i, amt))" by blast
  show "paystackWebhookHandler rt req st =
            Inr (case findById aid st of
                   None \<Rightarrow> st
                 | Some a \<Rightarrow>
                     if status a \<noteq> pending_payment then st
                     else save (case nonNull amt of
                                  None \<Rightarrow> a\<lparr>status := submitted,
                                             paymentTransactionId :=
                                               Some (js_String rt (coalesce i (JStr r)))\<rparr>
                                | Some v \<Rightarrow> a\<lparr>status := submitted,
                                               paymentTransactionId :=
                                                 Some (js_String rt (coalesce i (JStr r))),
                                               amountPaid :=
                                                 Some (js_div (js_Number rt v) 100)\<rparr>) st)"
    using handler_on_event[OF ev, of st] unfolding id .
next
  assume "\<forall>r'. js_prop (js_prop (parseBody rt req) ''data'') ''reference'' = Some (JStr r')
              \<longrightarrow> \<not> startsWith r' ''APP-''"
  then show "store_after st (paystackWebhookHandler rt req st) = st"
    by (rule handler_no_APP_prefix)
qed

theorem webhook_reference_resolution_witness:
  "CHR ''-'' \<notin> set ''65f0c0ffee0123456789abcd''
   \<and> list_all isDigit ''1700000000000''
   \<and> chargeEvent sample_runtime sample_request
       = Inr (Some (''APP-65f0c0ffee0123456789abcd-1700000000000'',
                    Some (JNum (Num 7)), Some (JNum (Num 35000))))
   \<and> applicationIdOf ''APP-65f0c0ffee0123456789abcd-1700000000000'' = ''65f0c0ffee0123456789abcd''
   \<and> paystackWebhookHandler sample_runtime sample_request [sample_app]
       = Inr [sample_app\<lparr>status := submitted, paymentTransactionId := Some ''7'',
                          amountPaid := Some (js_div (Num 35000) 100)\<rparr>]
   \<and> \<not> startsWith ''INV-20240001'' ''APP-''
   \<and> store_after [sample_app] (paystackWebhookHandler sample_runtime sample_request_foreign [sample_app])
       = [sample_app]"
proof -
  have h1: "CHR ''-'' \<notin> set ''65f0c0ffee0123456789abcd''" by simp
  have h2: "list_all isDigit ''1700000000000''" by (simp add: isDigit_def)
  have h3: "''1700000000000'' \<noteq> []" by simp
  have h4: "''APP-65f0c0ffee0123456789abcd-1700000000000''
      = ''APP-'' @ ''65f0c0ffee0123456789abcd'' @ ''-'' @ ''1700000000000''" by simp
  have h5: "\<forall>r'. js_prop (js_prop (parseBody sample_runtime sample_request_foreign) ''data'')
        ''reference'' = Some (JStr r') \<longrightarrow> \<not> startsWith r' ''APP-''"
    by (simp add: sample_foreign_reference startsWith_def)
  have h6: "\<not> startsWith ''INV-20240001'' ''APP-''" by (simp add: startsWith_def)
  have t7: "js_String sample_runtime (coalesce (Some (JNum (Num 7))) d) = ''7''" for d
    by (simp add: coalesce_def js_String_def sample_runtime_def digit_def decimal.simps)
  have p1: "CHR ''-'' \<notin> set ''65f0c0ffee0123456789abcd'' \<and> ''1700000000000'' \<noteq> []
      \<and> list_all isDigit ''1700000000000''
      \<and> (''APP-65f0c0ffee0123456789abcd-1700000000000'' = ''APP-'' @ ''65f0c0ffee0123456789abcd''
          \<or> ''APP-65f0c0ffee0123456789abcd-1700000000000''
              = ''APP-'' @ ''65f0c0ffee0123456789abcd'' @ ''-'' @ ''1700000000000'')
      \<and> chargeEvent sample_runtime sample_request
          = Inr (Some (''APP-65f0c0ffee0123456789abcd-1700000000000'',
                       Some (JNum (Num 7)), Some (JNum (Num 35000))))"
    using h1 h2 h3 h4 sample_chargeEvent by blast
  note r1 = webhook_reference_resolution[THEN conjunct1, THEN mp, OF p1, of "[sample_app]"]
  note r2 = webhook_reference_resolution[THEN conjunct2, THEN mp, OF h5, of "[sample_app]"]
  have a: "applicationIdOf ''APP-65f0c0ffee0123456789abcd-1700000000000'' = ''65f0c0ffee0123456789abcd''"
    using r1 by (rule conjunct1)
  have b: "paystackWebhookHandler sample_runtime sample_request [sample_app]
       = Inr [sample_app\<lparr>status := submitted, paymentTransactionId := Some ''7'',
                          amountPaid := Some (js_div (Num 35000) 100)\<rparr>]"
    unfolding r1[THEN conjunct2] sample_findById
    by (simp add: sample_status t7 js_Number_def)
  show ?thesis using h1 h2 sample_chargeEvent a b h6 r2 by blast
qed

section \<open>The owner's update\<close>

lemma save_frame:
  "distinct (map app_id st) \<Longrightarrow> a \<in> set st \<Longrightarrow> app_id a' = app_id a \<Longrightarrow> f a' = f a
     \<Longrightarrow> map f (save a' st) = map f st"
proof (induction st)
  case Nil
  then show ?case by simp
next
  case (Cons b st)
  show ?case
  proof (cases "app_id b = app_id a'")
    case True
    with Cons.prems have "b = a" by (auto simp: image_iff)
    with True Cons.prems show ?thesis by simp
  next
    case False
    with Cons show ?thesis by auto
  qed
qed

lemma updateApplication_snd:
  "snd (updateApplication u idParam body st) =
     (case findOne (\<lambda>a. app_id a = idParam \<and> userId a = user_id u) st of
        None \<Rightarrow> st
      | Some a \<Rightarrow>
          if status a \<noteq> pending_payment \<and> status a \<noteq> submitted then st
          else save (a\<lparr>coverLetter := (case js_prop (Some body) ''coverLetter'' of
                                          None \<Rightarrow> coverLetter a | Some v \<Rightarrow> Some v)\<rparr>) st)"
  by (simp add: updateApplication_def Let_def split: option.splits)

text \<open>
  C9. In a store whose documents have distinct identifiers, the owner's update
  \<^verbatim>\<open>PATCH /:id\<close> leaves every attribute of every application as it was, the cover
  letter of the addressed one apart; when that application is in \<open>pending_payment\<close>
  or \<open>submitted\<close> its cover letter becomes the \<^verbatim>\<open>coverLetter\<close> of the body, if the
  body has one. Two bodies with the same \<^verbatim>\<open>coverLetter\<close> give the same response and
  the same store: no other field of the body is read.
\<close>

theorem owner_update_frame:
  assumes "distinct (map app_id st)"
  shows "map (\<lambda>b. b\<lparr>coverLetter := None\<rparr>) (snd (updateApplication u idParam body st))
           = map (\<lambda>b. b\<lparr>coverLetter := None\<rparr>) st
       \<and> (findOne (\<lambda>a. app_id a = idParam \<and> userId a = user_id u) st = Some a
            \<and> (status a = pending_payment \<or> status a = submitted)
          \<longrightarrow> snd (updateApplication u idParam body st)
               = save (a\<lparr>coverLetter := (case js_prop (Some body) ''coverLetter'' of
                                              None \<Rightarrow> coverLetter a | Some v \<Rightarrow> Some v)\<rparr>) st)
       \<and> (js_prop (Some body') ''coverLetter'' = js_prop (Some body) ''coverLetter''
          \<longrightarrow> updateApplication u idParam body' st = updateApplication u idParam body st)"
proof (intro conjI impI)
  show "map (\<lambda>b. b\<lparr>coverLetter := None\<rparr>) (snd (updateApplication u idParam body st))
           = map (\<lambda>b. b\<lparr>coverLetter := None\<rparr>) st"
  proof (cases "findOne (\<lambda>a. app_id a = idParam \<and> userId a = user_id u) st")
    case None
    then show ?thesis by (simp add: updateApplication_snd)
  next
    case (Some x)
    then have "x \<in> set st" by (auto simp: findOne_def find_Some_iff)
    with assms have "map (\<lambda>b. b\<lparr>coverLetter := None\<rparr>) (save (x\<lparr>coverLetter := c\<rparr>) st)
        = map (\<lambda>b. b\<lparr>coverLetter := None\<rparr>) st" for c
      by (intro save_frame[where a=x]) simp_all
    with Some show ?thesis by (simp add: updateApplication_snd)
  qed
next
  assume "findOne (\<lambda>a. app_id a = idParam \<and> userId a = user_id u) st = Some a
            \<and> (status a = pending_payment \<or> status a = submitted)"
  then show "snd (updateApplication u idParam body st)
               = save (a\<lparr>coverLetter := (case js_prop (Some body) ''coverLetter'' of
                                              None \<Rightarrow> coverLetter a | Some v \<Rightarrow> Some v)\<rparr>) st"
    by (auto simp: updateApplication_snd)
next
  assume "js_prop (Some body') ''coverLetter'' = js_prop (Some body) ''coverLetter''"
  then show "updateApplication u idParam body' st = updateApplication u idParam body st"
    unfolding updateApplication_def by (simp only:)
qed

theorem owner_update_frame_witness:
  "distinct (map app_id [sample_app])
   \<and> findOne (\<lambda>a. app_id a = ''65f0c0ffee0123456789abcd'' \<and> userId a = user_id sample_user)
        [sample_app] = Some sample_app
   \<and> status sample_app = pending_payment
   \<and> snd (updateApplication sample_user ''65f0c0ffee0123456789abcd''
            (JObj [(''coverLetter'', JStr ''Dear team''), (''status'', JStr ''accepted''),
                   (''amountPaid'', JNum (Num 350))]) [sample_app])
       = [sample_app\<lparr>coverLetter := Some (JStr ''Dear team'')\<rparr>]
   \<and> updateApplication sample_user ''65f0c0ffee0123456789abcd''
        (JObj [(''coverLetter'', JStr ''Dear team'')]) [sample_app]
       = updateApplication sample_user ''65f0c0ffee0123456789abcd''
           (JObj [(''coverLetter'', JStr ''Dear team''), (''status'', JStr ''accepted''),
                  (''amountPaid'', JNum (Num 350))]) [sample_app]"
proof -
  have d: "distinct (map app_id [sample_app])" by simp
  have f: "findOne (\<lambda>a. app_id a = ''65f0c0ffee0123456789abcd'' \<and> userId a = user_id sample_user)
        [sample_app] = Some sample_app"
    by (simp add: findOne_def sample_app_def sample_user_def)
  have c: "js_prop (Some (JObj [(''coverLetter'', JStr ''Dear team'')])) ''coverLetter''
      = js_prop (Some (JObj [(''coverLetter'', JStr ''Dear team''), (''status'', JStr ''accepted''),
                   (''amountPaid'', JNum (Num 350))])) ''coverLetter''"
    by (simp add: js_prop_def)
  note t = owner_update_frame[OF d, of sample_user "''65f0c0ffee0123456789abcd''"
      "JObj [(''coverLetter'', JStr ''Dear team''), (''status'', JStr ''accepted''),
             (''amountPaid'', JNum (Num 350))]"
      sample_app "JObj [(''coverLetter'', JStr ''Dear team'')]"]
  from t[THEN conjunct2, THEN conjunct1, THEN mp, OF conjI[OF f disjI1[OF sample_status]]]
  have s: "snd (updateApplication sample_user ''65f0c0ffee0123456789abcd''
            (JObj [(''coverLetter'', JStr ''Dear team''), (''status'', JStr ''accepted''),
                   (''amountPaid'', JNum (Num 350))]) [sample_app])
       = [sample_app\<lparr>coverLetter := Some (JStr ''Dear team'')\<rparr>]"
    by (simp add: js_prop_def)
  from t[THEN conjunct2, THEN conjunct2, THEN mp, OF c] d f sample_status s
  show ?thesis by blast
qed

section \<open>Sequences of webhook deliveries and administrator edits\<close>



lemma allowed_iff:
  "s \<in> set allowed \<longleftrightarrow>
     s = ''submitted'' \<or> s = ''under_review'' \<or> s = ''shortlisted'' \<or> s = ''rejected'' \<or> s = ''accepted''"
  by (simp add: allowed_def)

lemma statusOfString_values:
  "statusOfString ''submitted'' = Some submitted"
  "statusOfString ''under_review'' = Some under_review"
  "statusOfString ''shortlisted'' = Some shortlisted"
  "statusOfString ''rejected'' = Some rejected"
  "statusOfString ''accepted'' = Some accepted"
  by (simp_all add: statusOfString_def)

lemma statusOfString_allowed:
  "s \<in> set allowed \<Longrightarrow>
     \<exists>new. statusOfString s = Some new
       \<and> new \<in> {submitted, under_review, shortlisted, rejected, accepted}"
  unfolding allowed_iff by (elim disjE) (simp_all add: statusOfString_values)

lemma adminUpdateStatus_snd:
  "snd (adminUpdateStatus idParam body st) =
     (case js_prop (Some body) ''status'' of
        Some (JStr s) \<Rightarrow>
          if s \<in> set allowed
          then (case findById idParam st of
                  None \<Rightarrow> st
                | Some a \<Rightarrow> save (a\<lparr>status := the (statusOfString s)\<rparr>) st)
          else st
      | _ \<Rightarrow> st)"
proof -
  have "s \<in> set allowed \<Longrightarrow> s \<noteq> []" for s
    unfolding allowed_iff by auto
  moreover have "s \<in> set allowed \<Longrightarrow>
      (case statusOfString s of None \<Rightarrow> x | Some n \<Rightarrow> f n) = f (the (statusOfString s))"
    for s and x :: "response \<times> store" and f
    using statusOfString_allowed[of s] by auto
  ultimately show ?thesis
    by (auto simp: adminUpdateStatus_def Let_def split: option.splits json.splits)
qed



lemma findById_distinct:
  "distinct (map app_id st) \<Longrightarrow> a \<in> set st \<Longrightarrow> findById (app_id a) st = Some a"
  by (induction st) (auto simp: findById_def findOne_def)

lemma checkoutFilter_string [simp]:
  "checkoutFilter rt (Some (JStr c)) = (\<lambda>a. mpesaCheckoutRequestId a = Some c)"
  by (rule ext) (simp add: checkoutFilter_def)

lemma callbackUpdate_InrD:
  assumes "callbackUpdate rt success tid amt a = Inr a'"
  shows "app_id a' = app_id a \<and> userId a' = userId a \<and> opportunityId a' = opportunityId a
       \<and> mpesaCheckoutRequestId a' = None
       \<and> status a' = (if success then submitted else pending_payment)"
  using assms by (auto simp: callbackUpdate_def split: if_splits sum.splits)

lemma mpesaCallback_cases:
  assumes "js_prop (stkResult body) ''CheckoutRequestID'' = Some (JStr c)"
  shows "store_after st (mpesaCallback rt body st) = st
       \<or> (\<exists>a a'. findOne (\<lambda>x. mpesaCheckoutRequestId x = Some c) st = Some a
             \<and> callbackUpdate rt (js_prop (stkResult body) ''ResultCode'' = Some (JNum (Num 0)))
                  (projr (getItem (callbackItems (stkResult body)) ''MpesaReceiptNumber''))
                  (projr (getItem (callbackItems (stkResult body)) ''Amount'')) a = Inr a'
             \<and> store_after st (mpesaCallback rt body st) = save a' st)"
  using assms
  by (auto simp: mpesaCallback_def store_after_def Let_def split: sum.splits option.splits)


lemma step_ids: "map app_id (step rt op st) = map app_id st"
proof (cases op)
  case (WebhookDelivery req)
  then show ?thesis
    by (auto simp: paystackWebhookHandler_def confirmPayment_def store_after_def Let_def
        split: sum.splits option.splits prod.splits)
next
  case (MpesaCallback body)
  then show ?thesis
    by (auto simp: mpesaCallback_def store_after_def Let_def split: sum.splits option.splits)
next
  case (AdminStatusEdit idParam body)
  then show ?thesis
    by (simp add: adminUpdateStatus_snd split: option.splits json.splits)
qed

lemma run_ids: "map app_id (run rt ops st) = map app_id st"
  by (induction ops arbitrary: st) (simp_all add: step_ids)










lemma mpesaCallback_applies:
  assumes "truthy (stkResult body)"
    and "js_prop (stkResult body) ''CheckoutRequestID'' = Some (JStr c)"
    and "getItem (callbackItems (stkResult body)) ''MpesaReceiptNumber'' = Inr tid"
    and "getItem (callbackItems (stkResult body)) ''Amount'' = Inr amt"
    and "findOne (\<lambda>x. mpesaCheckoutRequestId x = Some c) st = Some a"
  shows "mpesaCallback rt body st =
           (case callbackUpdate rt (js_prop (stkResult body) ''ResultCode'' = Some (JNum (Num 0)))
                   tid amt a of
              Inl e \<Rightarrow> Inl e
            | Inr a' \<Rightarrow> Inr (save a' st))"
  using assms by (simp add: mpesaCallback_def Let_def)


lemma mpesaCallback_success:
  assumes "truthy (stkResult body)"
    and "js_prop (stkResult body) ''CheckoutRequestID'' = Some (JStr c)"
    and "js_prop (stkResult body) ''ResultCode'' = Some (JNum (Num 0))"
    and "getItem (callbackItems (stkResult body)) ''MpesaReceiptNumber'' = Inr (Some (JStr receipt))"
    and "getItem (callbackItems (stkResult body)) ''Amount'' = Inr (Some (JNum paid))"
    and "findOne (\<lambda>x. mpesaCheckoutRequestId x = Some c) st = Some a"
  shows "mpesaCallback rt body st
           = Inr (save (a\<lparr>status := submitted, mpesaTransactionId := Some receipt,
                           amountPaid := Some paid, mpesaCheckoutRequestId := None\<rparr>) st)"
  using assms(3)
  by (simp add: mpesaCallback_applies[OF assms(1,2,4,5,6)] callbackUpdate_def assignString_def
      assignNumber_def)

lemma mpesaCallback_unknown:
  assumes "js_prop (stkResult body) ''CheckoutRequestID'' = Some (JStr c)"
    and "\<forall>x \<in> set st. mpesaCheckoutRequestId x \<noteq> Some c"
  shows "store_after st (mpesaCallback rt body st) = st"
proof -
  have "findOne (\<lambda>x. mpesaCheckoutRequestId x = Some c) st = None"
    using assms(2) by (simp add: findOne_def find_None_iff)
  with mpesaCallback_cases[OF assms(1), of st rt] show ?thesis by auto
qed


lemma sample_paid:
  "truthy (stkResult sample_callback_paid)"
  "js_prop (stkResult sample_callback_paid) ''CheckoutRequestID'' = Some (JStr ''ws_CO_1'')"
  "js_prop (stkResult sample_callback_paid) ''ResultCode'' = Some (JNum (Num 0))"
  "getItem (callbackItems (stkResult sample_callback_paid)) ''MpesaReceiptNumber''
     = Inr (Some (JStr ''NLJ7RT61SV''))"
  "getItem (callbackItems (stkResult sample_callback_paid)) ''Amount'' = Inr (Some (JNum (Num 500)))"
  by (simp_all add: stkResult_def sample_callback_paid_def js_prop_def callbackItems_def
      orElse_def getItem_def)

lemma set_save: "set (save a st) \<subseteq> insert a (set st)"
  by (induction st) auto





section \<open>The signature of a delivery\<close>

lemma webhook_handler_ignores_signature:
  "paystackWebhookHandler rt (req\<lparr>signature := sg\<rparr>) st = paystackWebhookHandler rt req st"
  by (simp add: paystackWebhookHandler_def chargeEvent_def parseBody_def)

text \<open>
  C1. The claim is that a delivery whose signature does not verify changes no
  application. The handler never calls \<^verbatim>\<open>verifyWebhookSignature\<close>: with the secret
  configured and no \<^verbatim>\<open>x-paystack-signature\<close> header at all, which no digest function
  verifies, the sample delivery still moves the application to \<open>submitted\<close> and
  records the payment.
\<close>

theorem unverified_webhook_mutates:
  "(\<forall>hmac_sha512_hex.
      \<not> verifyWebhookSignature hmac_sha512_hex (Some ''sk_live_1'') sample_body None)
   \<and> paystackWebhookHandler sample_runtime \<lparr>rawBody = sample_body, signature = None\<rparr>
         [sample_app]
       = Inr [sample_app\<lparr>status := submitted, paymentTransactionId := Some ''7'',
                          amountPaid := Some (js_div (Num 35000) 100)\<rparr>]"
proof
  show "\<forall>hmac_sha512_hex.
      \<not> verifyWebhookSignature hmac_sha512_hex (Some ''sk_live_1'') sample_body None"
    by (simp add: verifyWebhookSignature_def)
  have t7: "js_String sample_runtime (coalesce (Some (JNum (Num 7))) d) = ''7''" for d
    by (simp add: coalesce_def js_String_def sample_runtime_def digit_def decimal.simps)
  have r: "\<lparr>rawBody = sample_body, signature = None\<rparr> = sample_request\<lparr>signature := None\<rparr>"
    by (simp add: sample_request_def)
  show "paystackWebhookHandler sample_runtime \<lparr>rawBody = sample_body, signature = None\<rparr>
         [sample_app]
       = Inr [sample_app\<lparr>status := submitted, paymentTransactionId := Some ''7'',
                          amountPaid := Some (js_div (Num 35000) 100)\<rparr>]"
    unfolding r webhook_handler_ignores_signature
    by (simp add: handler_on_event[OF sample_chargeEvent] sample_applicationIdOf sample_findById
        sample_status t7 js_Number_def)
qed

section \<open>The amount of an initiation\<close>

lemma paymentInit_default_amount:
  "(case opp of None \<Rightarrow> True | Some opportunity \<Rightarrow> applicationFee opportunity = None)
     \<Longrightarrow> amount (paymentInit sv application opp u) = Num 350"
  by (simp add: paymentInit_def split: option.splits)

lemma mpesaAmount_default: "mpesaAmount None = Num 500"
  by (simp add: mpesaAmount_def)

text \<open>
  C7. The claim is that with no \<^verbatim>\<open>applicationFee\<close> on the opportunity every
  initiation carries 350. The Paystack version does (\<open>paymentInit_default_amount\<close>);
  in the Daraja version the sample request, for the sample opportunity that has no
  fee, sends an STK push of 500.
\<close>

theorem mpesa_creation_charges_500:
  "applicationFee sample_opportunity = None
   \<and> createApplication_mpesa sample_services [sample_opportunity] sample_user
        sample_create_request []
       = (\<lparr>statusCode = 200,
            message = ''Enter your M-Pesa PIN on your phone to complete payment.''\<rparr>,
          [\<lparr>app_id = ''65f0c0ffee0123456789abce'', userId = ''u1'', opportunityId = ''o1'',
            resumeUrl = ''https://files.example/internship-platform/resumes'',
            recommendationLetterUrl = None, coverLetter = None, status = pending_payment,
            paymentTransactionId = None, amountPaid = None,
            mpesaCheckoutRequestId = Some ''ws_CO_1'', mpesaTransactionId = None\<rparr>],
          [StkPush \<lparr>BusinessShortCode = ''174379'', Password = ''cGFzc3dvcmQ='',
                    Timestamp = ''20231114221410'', TransactionType = ''CustomerPayBillOnline'',
                    Amount = Num 500, PartyA = ''254712345678'', PartyB = ''174379'',
                    PhoneNumber = ''254712345678'',
                    CallBackURL = ''https://ias.example/api/applications/mpesa-callback'',
                    AccountReference = ''APP-65f0c0ffee0123456789abce'',
                    TransactionDesc = ''Application fee: Data intern''\<rparr>])"
  by (simp add: createApplication_mpesa_def sample_opportunity_def sample_services_def
      sample_user_def sample_create_request_def existingApplication_def findOne_def
      uploadDocuments_def newApplication_def coverLetterOr_def mpesaAmount_def
      initiateSTKPush_def startsWith_def create_def Let_def)

section \<open>The reference of a payment attempt\<close>

lemma digit_inj: "d < 10 \<Longrightarrow> e < 10 \<Longrightarrow> digit d = digit e \<Longrightarrow> d = e"
proof -
  assume a: "d < 10" "e < 10" "digit d = digit e"
  have "distinct ''0123456789''" by simp
  from nth_eq_iff_index_eq[OF this, of d e] a show ?thesis by (simp add: digit_def decimal.simps)
qed

lemma isDigit_digit: "d < 10 \<Longrightarrow> isDigit (digit d)"
  unfolding isDigit_def digit_def by (rule nth_mem) simp

lemma decimal_nonempty: "decimal n \<noteq> []"
  by (subst decimal.simps) simp

lemma decimal_digits: "list_all isDigit (decimal n)"
proof (induction n rule: decimal.induct)
  case (1 n)
  show ?case
  proof (cases "n < 10")
    case True
    then show ?thesis by (subst decimal.simps) (simp add: isDigit_digit)
  next
    case False
    with 1 show ?thesis by (subst decimal.simps) (simp add: isDigit_digit)
  qed
qed

lemma decimal_inj: "decimal m = decimal n \<Longrightarrow> m = n"
proof (induction m arbitrary: n rule: decimal.induct)
  case (1 m)
  show ?case
  proof (cases "m < 10")
    case True
    note m = this
    show ?thesis
    proof (cases "n < 10")
      case True
      from "1.prems" m True have "digit m = digit n"
        by (simp add: decimal.simps[of m] decimal.simps[of n])
      with m True show ?thesis by (intro digit_inj)
    next
      case False
      from "1.prems" m False have "[digit m] = decimal (n div 10) @ [digit (n mod 10)]"
        by (simp add: decimal.simps[of m] decimal.simps[of n])
      then have "decimal (n div 10) = []" by simp
      with decimal_nonempty show ?thesis by blast
    qed
  next
    case False
    note m = this
    show ?thesis
    proof (cases "n < 10")
      case True
      from "1.prems" m True have "decimal (m div 10) @ [digit (m mod 10)] = [digit n]"
        by (simp add: decimal.simps[of m] decimal.simps[of n])
      then have "decimal (m div 10) = []" by simp
      with decimal_nonempty show ?thesis by blast
    next
      case False
      from "1.prems" m False
      have "decimal (m div 10) @ [digit (m mod 10)] = decimal (n div 10) @ [digit (n mod 10)]"
        by (simp add: decimal.simps[of m] decimal.simps[of n])
      then have a: "decimal (m div 10) = decimal (n div 10)"
        and b: "digit (m mod 10) = digit (n mod 10)" by simp_all
      from "1.IH"[OF m a] have "m div 10 = n div 10" .
      moreover from b have "m mod 10 = n mod 10" by (intro digit_inj) simp_all
      ultimately show ?thesis by (metis div_mult_mod_eq)
    qed
  qed
qed

lemma paymentReference_inj: "paymentReference aid t1 = paymentReference aid t2 \<Longrightarrow> t1 = t2"
  by (simp add: paymentReference_def decimal_inj)

lemma applicationIdOf_paymentReference:
  "CHR ''-'' \<notin> set aid \<Longrightarrow> applicationIdOf (paymentReference aid t) = aid"
  unfolding paymentReference_def
  by (rule applicationIdOf_suffixed) (simp_all add: decimal_nonempty decimal_digits)

lemma initializeTransaction_reference:
  "PAYSTACK_SECRET_KEY sv = Some k \<Longrightarrow> k \<noteq> [] \<Longrightarrow>
     map callReference (snd (initializeTransaction sv args)) = [reference args]"
  by (simp add: initializeTransaction_def Let_def split: sum.splits)

lemma payForApplication_reference:
  assumes "findOne (\<lambda>x. app_id x = idParam \<and> userId x = user_id u \<and> status x = pending_payment) st
             = Some a"
    and "PAYSTACK_SECRET_KEY sv = Some k" and "k \<noteq> []"
  shows "map callReference (snd (payForApplication sv opps u idParam st))
           = [paymentReference (app_id a) (now sv)]"
proof -
  have "snd (payForApplication sv opps u idParam st)
      = snd (getPaymentLink sv a (find (\<lambda>opp. opp_id opp = opportunityId a) opps) u)"
    using assms(1) by (simp add: payForApplication_def split: prod.splits sum.splits)
  then show ?thesis
    using initializeTransaction_reference[OF assms(2,3)]
    by (simp add: getPaymentLink_def paymentInit_def)
qed

lemma confirmation_applies:
  assumes "chargeEvent rt req = Inr (Some (r, i, amt))"
    and "findById (applicationIdOf r) st = Some a"
    and "status a = pending_payment"
  shows "\<exists>a'. paystackWebhookHandler rt req st = Inr (save a' st)
           \<and> status a' = submitted \<and> app_id a' = app_id a"
  using assms(2,3) by (auto simp: handler_on_event[OF assms(1)] split: option.splits)

lemma save_twice: "app_id a2 = app_id a1 \<Longrightarrow> save a2 (save a1 st) = save a2 st"
  by (induction st) simp_all

lemma findOne_unique:
  "a \<in> set st \<Longrightarrow> P a \<Longrightarrow> \<forall>x \<in> set st. P x \<longrightarrow> x = a \<Longrightarrow> findOne P st = Some a"
proof (induction st)
  case Nil
  then show ?case by simp
next
  case (Cons b st)
  show ?case
  proof (cases "P b")
    case True
    with Cons.prems(3) have "b = a" by simp
    with True show ?thesis by (simp add: findOne_def)
  next
    case False
    with Cons.prems(1,2) have "a \<in> set st" by auto
    moreover from Cons.prems(3) have "\<forall>x \<in> set st. P x \<longrightarrow> x = a" by simp
    ultimately have "findOne P st = Some a" using Cons.prems(2) by (intro Cons.IH)
    with False show ?thesis by (simp add: findOne_def)
  qed
qed

lemma findOne_by_id:
  assumes "distinct (map app_id st)"
  shows "findOne (\<lambda>x. app_id x = i \<and> Q x) st
           = (case findById i st of None \<Rightarrow> None | Some a \<Rightarrow> if Q a then Some a else None)"
  using assms
proof (induction st)
  case Nil
  then show ?case by (simp add: findOne_def findById_def)
next
  case (Cons b st)
  show ?case
  proof (cases "app_id b = i")
    case True
    with Cons.prems have "\<forall>x \<in> set st. app_id x \<noteq> i" by (auto simp: image_iff)
    then have "find (\<lambda>x. app_id x = i \<and> Q x) st = None" by (auto simp: find_None_iff)
    with True show ?thesis by (simp add: findOne_def findById_def)
  next
    case False
    have 1: "findOne (\<lambda>x. app_id x = i \<and> Q x) (b # st) = findOne (\<lambda>x. app_id x = i \<and> Q x) st"
      using False by (simp add: findOne_def)
    have 2: "findById i (b # st) = findById i st"
      using False by (simp add: findById_def findOne_def)
    from Cons.prems have "distinct (map app_id st)" by simp
    from Cons.IH[OF this] show ?thesis unfolding 1 2 .
  qed
qed

lemma payForApplication_mpesa_attempt:
  assumes "findOne (\<lambda>x. app_id x = idParam \<and> userId x = user_id u \<and> status x = pending_payment) st
             = Some a"
    and "phone \<noteq> []" and "getAccessToken sv = Inr token"
    and "\<forall>b. daraja_stkpush sv token b = Inr c"
  shows "fst (snd (payForApplication_mpesa sv opps u idParam (Some phone) st))
           = save (a\<lparr>mpesaCheckoutRequestId := Some c\<rparr>) st
       \<and> map callReference (snd (snd (payForApplication_mpesa sv opps u idParam (Some phone) st)))
           = [''APP-'' @ app_id a]"
  using assms by (simp add: payForApplication_mpesa_def initiateSTKPush_def Let_def)

lemma second_attempt_supersedes:
  assumes d: "distinct (map app_id st)"
    and f: "findOne (\<lambda>x. app_id x = idParam \<and> userId x = user_id u \<and> status x = pending_payment) st
             = Some a"
    and p: "phone \<noteq> []"
    and t1: "getAccessToken sv1 = Inr token1" and c1: "\<forall>b. daraja_stkpush sv1 token1 b = Inr c1"
    and t2: "getAccessToken sv2 = Inr token2" and c2: "\<forall>b. daraja_stkpush sv2 token2 b = Inr c2"
  shows "fst (snd (payForApplication_mpesa sv2 opps u idParam (Some phone)
            (fst (snd (payForApplication_mpesa sv1 opps u idParam (Some phone) st)))))
           = save (a\<lparr>mpesaCheckoutRequestId := Some c2\<rparr>) st"
    and "findById idParam (save (a\<lparr>mpesaCheckoutRequestId := Some c2\<rparr>) st)
           = Some (a\<lparr>mpesaCheckoutRequestId := Some c2\<rparr>)"
proof -
  define a1 where "a1 = a\<lparr>mpesaCheckoutRequestId := Some c1\<rparr>"
  from findOne_Some[OF f] have id: "app_id a = idParam" and own: "userId a = user_id u"
    and pending: "status a = pending_payment" and mem: "a \<in> set st" by simp_all
  from findById_distinct[OF d mem] id have fa: "findById idParam st = Some a" by simp
  have s1: "fst (snd (payForApplication_mpesa sv1 opps u idParam (Some phone) st)) = save a1 st"
    unfolding a1_def by (rule payForApplication_mpesa_attempt[OF f p t1 c1, THEN conjunct1])
  have d1: "distinct (map app_id (save a1 st))" using d by simp
  have id1: "app_id a1 = idParam" and q1: "userId a1 = user_id u \<and> status a1 = pending_payment"
    using id own pending by (simp_all add: a1_def)
  have fb: "findById idParam (save a1 st) = Some a1"
    using fa id1 by (rule findById_save)
  have "findOne (\<lambda>x. app_id x = idParam \<and> userId x = user_id u \<and> status x = pending_payment)
      (save a1 st)
      = (case findById idParam (save a1 st) of
           None \<Rightarrow> None
         | Some x \<Rightarrow> if userId x = user_id u \<and> status x = pending_payment then Some x else None)"
    by (rule findOne_by_id[OF d1])
  then have f1: "findOne (\<lambda>x. app_id x = idParam \<and> userId x = user_id u \<and> status x = pending_payment)
      (save a1 st) = Some a1"
    unfolding fb using q1 by simp
  have "fst (snd (payForApplication_mpesa sv2 opps u idParam (Some phone) (save a1 st)))
      = save (a1\<lparr>mpesaCheckoutRequestId := Some c2\<rparr>) (save a1 st)"
    by (rule payForApplication_mpesa_attempt[OF f1 p t2 c2, THEN conjunct1])
  also have "\<dots> = save (a1\<lparr>mpesaCheckoutRequestId := Some c2\<rparr>) st"
    by (rule save_twice) simp
  also have "a1\<lparr>mpesaCheckoutRequestId := Some c2\<rparr> = a\<lparr>mpesaCheckoutRequestId := Some c2\<rparr>"
    by (simp add: a1_def)
  finally show "fst (snd (payForApplication_mpesa sv2 opps u idParam (Some phone)
            (fst (snd (payForApplication_mpesa sv1 opps u idParam (Some phone) st)))))
           = save (a\<lparr>mpesaCheckoutRequestId := Some c2\<rparr>) st"
    unfolding s1 .
  show "findById idParam (save (a\<lparr>mpesaCheckoutRequestId := Some c2\<rparr>) st)
           = Some (a\<lparr>mpesaCheckoutRequestId := Some c2\<rparr>)"
    using fa id by (intro findById_save) simp_all
qed

lemma superseded_checkout_ignored:
  assumes d: "distinct (map app_id st)"
    and f: "findOne (\<lambda>x. app_id x = idParam \<and> userId x = user_id u \<and> status x = pending_payment) st
             = Some a"
    and ne: "c1 \<noteq> c2"
    and free: "\<forall>x \<in> set st. mpesaCheckoutRequestId x \<noteq> Some c1 \<and> mpesaCheckoutRequestId x \<noteq> Some c2"
  shows "js_prop (stkResult cb) ''CheckoutRequestID'' = Some (JStr c1)
           \<longrightarrow> store_after (save (a\<lparr>mpesaCheckoutRequestId := Some c2\<rparr>) st)
                 (mpesaCallback rt cb (save (a\<lparr>mpesaCheckoutRequestId := Some c2\<rparr>) st))
               = save (a\<lparr>mpesaCheckoutRequestId := Some c2\<rparr>) st"
    and "truthy (stkResult cb') \<and> js_prop (stkResult cb') ''CheckoutRequestID'' = Some (JStr c2)
         \<and> js_prop (stkResult cb') ''ResultCode'' = Some (JNum (Num 0))
         \<and> getItem (callbackItems (stkResult cb')) ''MpesaReceiptNumber'' = Inr (Some (JStr receipt))
         \<and> getItem (callbackItems (stkResult cb')) ''Amount'' = Inr (Some (JNum paid))
           \<longrightarrow> mpesaCallback rt cb' (save (a\<lparr>mpesaCheckoutRequestId := Some c2\<rparr>) st)
               = Inr (save (a\<lparr>status := submitted, mpesaTransactionId := Some receipt,
                               amountPaid := Some paid, mpesaCheckoutRequestId := None\<rparr>) st)"
proof -
  define a2 where "a2 = a\<lparr>mpesaCheckoutRequestId := Some c2\<rparr>"
  from findOne_Some[OF f] have id: "app_id a = idParam" and mem: "a \<in> set st" by simp_all
  from findById_distinct[OF d mem] have fa: "findById (app_id a2) st = Some a" by (simp add: a2_def)
  have sub: "set (save a2 st) \<subseteq> insert a2 (set st)" by (rule set_save)
  have no1: "\<forall>x \<in> set (save a2 st). mpesaCheckoutRequestId x \<noteq> Some c1"
    using sub free ne by (auto simp: a2_def)
  show "js_prop (stkResult cb) ''CheckoutRequestID'' = Some (JStr c1)
           \<longrightarrow> store_after (save (a\<lparr>mpesaCheckoutRequestId := Some c2\<rparr>) st)
                 (mpesaCallback rt cb (save (a\<lparr>mpesaCheckoutRequestId := Some c2\<rparr>) st))
               = save (a\<lparr>mpesaCheckoutRequestId := Some c2\<rparr>) st"
    using mpesaCallback_unknown[OF _ no1, of cb rt] by (simp add: a2_def)
  have "findById (app_id a2) (save a2 st) = Some a2" using fa by (rule findById_save) simp
  then have m2: "a2 \<in> set (save a2 st)" unfolding findById_def by (auto dest: findOne_Some)
  have "\<forall>x \<in> set (save a2 st). mpesaCheckoutRequestId x = Some c2 \<longrightarrow> x = a2"
    using sub free by auto
  with m2 have f2: "findOne (\<lambda>x. mpesaCheckoutRequestId x = Some c2) (save a2 st) = Some a2"
    by (intro findOne_unique) (simp_all add: a2_def)
  show "truthy (stkResult cb') \<and> js_prop (stkResult cb') ''CheckoutRequestID'' = Some (JStr c2)
         \<and> js_prop (stkResult cb') ''ResultCode'' = Some (JNum (Num 0))
         \<and> getItem (callbackItems (stkResult cb')) ''MpesaReceiptNumber'' = Inr (Some (JStr receipt))
         \<and> getItem (callbackItems (stkResult cb')) ''Amount'' = Inr (Some (JNum paid))
           \<longrightarrow> mpesaCallback rt cb' (save (a\<lparr>mpesaCheckoutRequestId := Some c2\<rparr>) st)
               = Inr (save (a\<lparr>status := submitted, mpesaTransactionId := Some receipt,
                               amountPaid := Some paid, mpesaCheckoutRequestId := None\<rparr>) st)"
  proof
    assume h: "truthy (stkResult cb') \<and> js_prop (stkResult cb') ''CheckoutRequestID'' = Some (JStr c2)
         \<and> js_prop (stkResult cb') ''ResultCode'' = Some (JNum (Num 0))
         \<and> getItem (callbackItems (stkResult cb')) ''MpesaReceiptNumber'' = Inr (Some (JStr receipt))
         \<and> getItem (callbackItems (stkResult cb')) ''Amount'' = Inr (Some (JNum paid))"
    then have "mpesaCallback rt cb' (save a2 st)
        = Inr (save (a2\<lparr>status := submitted, mpesaTransactionId := Some receipt,
                        amountPaid := Some paid, mpesaCheckoutRequestId := None\<rparr>) (save a2 st))"
      using f2 by (intro mpesaCallback_success) simp_all
    then show "mpesaCallback rt cb' (save (a\<lparr>mpesaCheckoutRequestId := Some c2\<rparr>) st)
               = Inr (save (a\<lparr>status := submitted, mpesaTransactionId := Some receipt,
                               amountPaid := Some paid, mpesaCheckoutRequestId := None\<rparr>) st)"
      by (simp add: a2_def save_twice)
  qed
qed

text \<open>
  C5, as the claim states it, fails. The reference of an attempt is made of the
  identifier of the application and of the clock, so two attempts at the same
  millisecond carry the same reference, and in the Daraja version every attempt
  carries \<^verbatim>\<open>APP-<id>\<close>. No attribute of the application records the reference of the
  last attempt: the sample delivery carries the reference of an attempt at
  1700000000000, an attempt at 1700000050000 has superseded it, and the delivery is
  applied all the same.
\<close>

theorem superseded_reference_confirms:
  "map callReference (snd (payForApplication (sample_services\<lparr>now := 1700000000000\<rparr>)
       [sample_opportunity] sample_user ''65f0c0ffee0123456789abcd'' [sample_app]))
     = [''APP-65f0c0ffee0123456789abcd-1700000000000'']
   \<and> map callReference (snd (payForApplication sample_services
       [sample_opportunity] sample_user ''65f0c0ffee0123456789abcd'' [sample_app]))
     = [''APP-65f0c0ffee0123456789abcd-1700000050000'']
   \<and> paystackWebhookHandler sample_runtime sample_request [sample_app]
       = Inr [sample_app\<lparr>status := submitted, paymentTransactionId := Some ''7'',
                          amountPaid := Some (js_div (Num 35000) 100)\<rparr>]
   \<and> map callReference (snd (payForApplication
         (sample_services\<lparr>paystack_initialize := (\<lambda>body. Inl ''Duplicate Transaction Reference'')\<rparr>)
         [sample_opportunity] sample_user ''65f0c0ffee0123456789abcd'' [sample_app]))
     = [''APP-65f0c0ffee0123456789abcd-1700000050000'']
   \<and> map callReference (snd (snd (payForApplication_mpesa (sample_services\<lparr>now := 1700000000000\<rparr>)
         [sample_opportunity] sample_user ''65f0c0ffee0123456789abcd'' (Some ''0712345678'')
         [sample_app])))
     = [''APP-65f0c0ffee0123456789abcd'']
   \<and> map callReference (snd (snd (payForApplication_mpesa sample_services
         [sample_opportunity] sample_user ''65f0c0ffee0123456789abcd'' (Some ''0712345678'')
         [sample_app])))
     = [''APP-65f0c0ffee0123456789abcd'']"
proof -
  have f: "findOne (\<lambda>x. app_id x = ''65f0c0ffee0123456789abcd'' \<and> userId x = user_id sample_user
              \<and> status x = pending_payment) [sample_app] = Some sample_app"
    by (simp add: findOne_def sample_app_def sample_user_def)
  have k: "PAYSTACK_SECRET_KEY (sv\<lparr>now := t\<rparr>) = PAYSTACK_SECRET_KEY sv"
    "PAYSTACK_SECRET_KEY (sv\<lparr>paystack_initialize := p\<rparr>) = PAYSTACK_SECRET_KEY sv" for sv t p
    by simp_all
  have s: "PAYSTACK_SECRET_KEY sample_services = Some ''sk_live_1''" "''sk_live_1'' \<noteq> []"
    by (simp_all add: sample_services_def)
  have d1: "paymentReference ''65f0c0ffee0123456789abcd'' 1700000000000
      = ''APP-65f0c0ffee0123456789abcd-1700000000000''"
    by (simp add: paymentReference_def digit_def decimal.simps)
  have d2: "paymentReference ''65f0c0ffee0123456789abcd'' 1700000050000
      = ''APP-65f0c0ffee0123456789abcd-1700000050000''"
    by (simp add: paymentReference_def digit_def decimal.simps)
  have n: "now sample_services = 1700000050000" by (simp add: sample_services_def)
  have t7: "js_String sample_runtime (coalesce (Some (JNum (Num 7))) d) = ''7''" for d
    by (simp add: coalesce_def js_String_def sample_runtime_def digit_def decimal.simps)
  have 1: "map callReference (snd (payForApplication (sample_services\<lparr>now := 1700000000000\<rparr>)
       [sample_opportunity] sample_user ''65f0c0ffee0123456789abcd'' [sample_app]))
     = [''APP-65f0c0ffee0123456789abcd-1700000000000'']"
    using payForApplication_reference[OF f, of "sample_services\<lparr>now := 1700000000000\<rparr>"
        "''sk_live_1''" "[sample_opportunity]"] s
    by (simp add: sample_app_id d1)
  have 2: "map callReference (snd (payForApplication sample_services
       [sample_opportunity] sample_user ''65f0c0ffee0123456789abcd'' [sample_app]))
     = [''APP-65f0c0ffee0123456789abcd-1700000050000'']"
    using payForApplication_reference[OF f s, of "[sample_opportunity]"]
    by (simp add: sample_app_id d2 n)
  have 3: "paystackWebhookHandler sample_runtime sample_request [sample_app]
       = Inr [sample_app\<lparr>status := submitted, paymentTransactionId := Some ''7'',
                          amountPaid := Some (js_div (Num 35000) 100)\<rparr>]"
    by (simp add: handler_on_event[OF sample_chargeEvent] sample_applicationIdOf sample_findById
        sample_status t7 js_Number_def)
  have 4: "map callReference (snd (payForApplication
         (sample_services\<lparr>paystack_initialize := (\<lambda>body. Inl ''Duplicate Transaction Reference'')\<rparr>)
         [sample_opportunity] sample_user ''65f0c0ffee0123456789abcd'' [sample_app]))
     = [''APP-65f0c0ffee0123456789abcd-1700000050000'']"
    using payForApplication_reference[OF f, of
        "sample_services\<lparr>paystack_initialize := (\<lambda>body. Inl ''Duplicate Transaction Reference'')\<rparr>"
        "''sk_live_1''" "[sample_opportunity]"] s
    by (simp add: sample_app_id d2 n)
  have 5: "map callReference (snd (snd (payForApplication_mpesa (sample_services\<lparr>now := t\<rparr>)
         [sample_opportunity] sample_user ''65f0c0ffee0123456789abcd'' (Some ''0712345678'')
         [sample_app])))
     = [''APP-65f0c0ffee0123456789abcd'']" for t
    by (simp add: payForApplication_mpesa_def f initiateSTKPush_def sample_services_def
        sample_app_id Let_def)
  have 6: "sample_services\<lparr>now := now sample_services\<rparr> = sample_services" by simp
  from 5[of "now sample_services"] have 7:
    "map callReference (snd (snd (payForApplication_mpesa sample_services
         [sample_opportunity] sample_user ''65f0c0ffee0123456789abcd'' (Some ''0712345678'')
         [sample_app])))
     = [''APP-65f0c0ffee0123456789abcd'']"
    unfolding 6 .
  from 1 2 3 4 5[of 1700000000000] 7 show ?thesis by blast
qed

text \<open>
  C5, amended. A payment attempt of the Paystack version on an application in
  \<open>pending_payment\<close> carries the reference \<^verbatim>\<open>APP-<id>-<milliseconds>\<close>; attempts at
  different milliseconds carry different references; every such reference leads the
  webhook back to the same application, and a \<^verbatim>\<open>charge.success\<close> delivery that
  carries any of them, the last or an earlier one, moves that application from
  \<open>pending_payment\<close> to \<open>submitted\<close>. A payment attempt of the Daraja version
  sends the reference \<^verbatim>\<open>APP-<id>\<close>, the same at every attempt, and writes the checkout
  request id that Daraja answers to the application, over the one of the attempt
  before. After a second attempt that Daraja has answered with another checkout
  request id, a callback that carries the id of the first attempt changes nothing,
  and a callback with \<^verbatim>\<open>ResultCode\<close> 0 that carries the id of the second moves the
  application to \<open>submitted\<close>.
\<close>

theorem payment_reference_per_attempt:
  "(findOne (\<lambda>x. app_id x = idParam \<and> userId x = user_id u \<and> status x = pending_payment) st
       = Some a \<and> PAYSTACK_SECRET_KEY sv = Some k \<and> k \<noteq> []
     \<longrightarrow> map callReference (snd (payForApplication sv opps u idParam st))
          = [paymentReference (app_id a) (now sv)])
   \<and> (t1 \<noteq> t2 \<longrightarrow> paymentReference aid t1 \<noteq> paymentReference aid t2)
   \<and> (CHR ''-'' \<notin> set aid \<longrightarrow> applicationIdOf (paymentReference aid t1) = aid)
   \<and> (CHR ''-'' \<notin> set aid
        \<and> chargeEvent rt req = Inr (Some (paymentReference aid t1, i, amt))
        \<and> findById aid st' = Some b \<and> status b = pending_payment
      \<longrightarrow> (\<exists>b'. paystackWebhookHandler rt req st' = Inr (save b' st')
                \<and> status b' = submitted \<and> app_id b' = aid))
   \<and> (findOne (\<lambda>x. app_id x = idParam \<and> userId x = user_id u \<and> status x = pending_payment) st
         = Some a
        \<and> phone \<noteq> [] \<and> getAccessToken dv1 = Inr token1
        \<and> (\<forall>body. daraja_stkpush dv1 token1 body = Inr c1)
      \<longrightarrow> fst (snd (payForApplication_mpesa dv1 opps u idParam (Some phone) st))
            = save (a\<lparr>mpesaCheckoutRequestId := Some c1\<rparr>) st
        \<and> map callReference (snd (snd (payForApplication_mpesa dv1 opps u idParam (Some phone) st)))
            = [''APP-'' @ app_id a])
   \<and> (distinct (map app_id st)
        \<and> findOne (\<lambda>x. app_id x = idParam \<and> userId x = user_id u \<and> status x = pending_payment) st
            = Some a
        \<and> phone \<noteq> [] \<and> getAccessToken dv1 = Inr token1
        \<and> (\<forall>body. daraja_stkpush dv1 token1 body = Inr c1)
        \<and> getAccessToken dv2 = Inr token2
        \<and> (\<forall>body. daraja_stkpush dv2 token2 body = Inr c2)
        \<and> c1 \<noteq> c2
        \<and> (\<forall>x \<in> set st. mpesaCheckoutRequestId x \<noteq> Some c1 \<and> mpesaCheckoutRequestId x \<noteq> Some c2)
      \<longrightarrow> (let st2 = fst (snd (payForApplication_mpesa dv2 opps u idParam (Some phone)
                         (fst (snd (payForApplication_mpesa dv1 opps u idParam (Some phone) st)))))
           in st2 = save (a\<lparr>mpesaCheckoutRequestId := Some c2\<rparr>) st
              \<and> findById idParam st2 = Some (a\<lparr>mpesaCheckoutRequestId := Some c2\<rparr>)
              \<and> (js_prop (stkResult cb1) ''CheckoutRequestID'' = Some (JStr c1)
                   \<longrightarrow> store_after st2 (mpesaCallback rt cb1 st2) = st2)
              \<and> (truthy (stkResult cb2)
                   \<and> js_prop (stkResult cb2) ''CheckoutRequestID'' = Some (JStr c2)
                   \<and> js_prop (stkResult cb2) ''ResultCode'' = Some (JNum (Num 0))
                   \<and> getItem (callbackItems (stkResult cb2)) ''MpesaReceiptNumber''
                       = Inr (Some (JStr receipt))
                   \<and> getItem (callbackItems (stkResult cb2)) ''Amount'' = Inr (Some (JNum paid))
                   \<longrightarrow> mpesaCallback rt cb2 st2
                         = Inr (save (a\<lparr>status := submitted, mpesaTransactionId := Some receipt,
                                         amountPaid := Some paid,
                                         mpesaCheckoutRequestId := None\<rparr>) st))))"
proof (intro conjI impI)
  assume "findOne (\<lambda>x. app_id x = idParam \<and> userId x = user_id u \<and> status x = pending_payment) st
       = Some a \<and> PAYSTACK_SECRET_KEY sv = Some k \<and> k \<noteq> []"
  then show "map callReference (snd (payForApplication sv opps u idParam st))
          = [paymentReference (app_id a) (now sv)]"
    using payForApplication_reference by blast
next
  assume "t1 \<noteq> t2"
  then show "paymentReference aid t1 \<noteq> paymentReference aid t2"
    using paymentReference_inj by blast
next
  assume "CHR ''-'' \<notin> set aid"
  then show "applicationIdOf (paymentReference aid t1) = aid"
    by (rule applicationIdOf_paymentReference)
next
  assume h: "CHR ''-'' \<notin> set aid
        \<and> chargeEvent rt req = Inr (Some (paymentReference aid t1, i, amt))
        \<and> findById aid st' = Some b \<and> status b = pending_payment"
  then have id: "applicationIdOf (paymentReference aid t1) = aid"
    using applicationIdOf_paymentReference by blast
  from h have ev: "chargeEvent rt req = Inr (Some (paymentReference aid t1, i, amt))"
    and f: "findById (applicationIdOf (paymentReference aid t1)) st' = Some b"
    and p: "status b = pending_payment"
    unfolding id by blast+
  from confirmation_applies[OF ev f p] findById_Some_app_id[OF f] id
  show "\<exists>b'. paystackWebhookHandler rt req st' = Inr (save b' st')
                \<and> status b' = submitted \<and> app_id b' = aid"
    by auto
next
  assume h: "findOne (\<lambda>x. app_id x = idParam \<and> userId x = user_id u \<and> status x = pending_payment) st
         = Some a
        \<and> phone \<noteq> [] \<and> getAccessToken dv1 = Inr token1
        \<and> (\<forall>body. daraja_stkpush dv1 token1 body = Inr c1)"
  then have "fst (snd (payForApplication_mpesa dv1 opps u idParam (Some phone) st))
            = save (a\<lparr>mpesaCheckoutRequestId := Some c1\<rparr>) st
        \<and> map callReference (snd (snd (payForApplication_mpesa dv1 opps u idParam (Some phone) st)))
            = [''APP-'' @ app_id a]"
    by (intro payForApplication_mpesa_attempt) blast+
  then show "fst (snd (payForApplication_mpesa dv1 opps u idParam (Some phone) st))
            = save (a\<lparr>mpesaCheckoutRequestId := Some c1\<rparr>) st"
    and "map callReference (snd (snd (payForApplication_mpesa dv1 opps u idParam (Some phone) st)))
            = [''APP-'' @ app_id a]"
    by blast+
next
  assume h: "distinct (map app_id st)
        \<and> findOne (\<lambda>x. app_id x = idParam \<and> userId x = user_id u \<and> status x = pending_payment) st
            = Some a
        \<and> phone \<noteq> [] \<and> getAccessToken dv1 = Inr token1
        \<and> (\<forall>body. daraja_stkpush dv1 token1 body = Inr c1)
        \<and> getAccessToken dv2 = Inr token2
        \<and> (\<forall>body. daraja_stkpush dv2 token2 body = Inr c2)
        \<and> c1 \<noteq> c2
        \<and> (\<forall>x \<in> set st. mpesaCheckoutRequestId x \<noteq> Some c1 \<and> mpesaCheckoutRequestId x \<noteq> Some c2)"
  then have d: "distinct (map app_id st)"
    and f: "findOne (\<lambda>x. app_id x = idParam \<and> userId x = user_id u \<and> status x = pending_payment) st
            = Some a"
    and p: "phone \<noteq> []" and g1: "getAccessToken dv1 = Inr token1"
    and k1: "\<forall>body. daraja_stkpush dv1 token1 body = Inr c1"
    and g2: "getAccessToken dv2 = Inr token2"
    and k2: "\<forall>body. daraja_stkpush dv2 token2 body = Inr c2"
    and ne: "c1 \<noteq> c2"
    and free: "\<forall>x \<in> set st. mpesaCheckoutRequestId x \<noteq> Some c1 \<and> mpesaCheckoutRequestId x \<noteq> Some c2"
    by blast+
  note two = second_attempt_supersedes[OF d f p g1 k1 g2 k2]
  note cbs = superseded_checkout_ignored[OF d f ne free]
  show "let st2 = fst (snd (payForApplication_mpesa dv2 opps u idParam (Some phone)
                         (fst (snd (payForApplication_mpesa dv1 opps u idParam (Some phone) st)))))
           in st2 = save (a\<lparr>mpesaCheckoutRequestId := Some c2\<rparr>) st
              \<and> findById idParam st2 = Some (a\<lparr>mpesaCheckoutRequestId := Some c2\<rparr>)
              \<and> (js_prop (stkResult cb1) ''CheckoutRequestID'' = Some (JStr c1)
                   \<longrightarrow> store_after st2 (mpesaCallback rt cb1 st2) = st2)
              \<and> (truthy (stkResult cb2)
                   \<and> js_prop (stkResult cb2) ''CheckoutRequestID'' = Some (JStr c2)
                   \<and> js_prop (stkResult cb2) ''ResultCode'' = Some (JNum (Num 0))
                   \<and> getItem (callbackItems (stkResult cb2)) ''MpesaReceiptNumber''
                       = Inr (Some (JStr receipt))
                   \<and> getItem (callbackItems (stkResult cb2)) ''Amount'' = Inr (Some (JNum paid))
                   \<longrightarrow> mpesaCallback rt cb2 st2
                         = Inr (save (a\<lparr>status := submitted, mpesaTransactionId := Some receipt,
                                         amountPaid := Some paid,
                                         mpesaCheckoutRequestId := None\<rparr>) st))"
    unfolding Let_def two(1) using two(2) cbs by blast
qed
lemma sample_superseded:
  "js_prop (stkResult sample_callback_superseded) ''CheckoutRequestID'' = Some (JStr ''ws_CO_0'')"
  by (simp add: stkResult_def sample_callback_superseded_def js_prop_def)

theorem payment_reference_per_attempt_witness:
  "findOne (\<lambda>x. app_id x = ''65f0c0ffee0123456789abcd'' \<and> userId x = user_id sample_user
              \<and> status x = pending_payment) [sample_app] = Some sample_app
   \<and> PAYSTACK_SECRET_KEY sample_services = Some ''sk_live_1''
   \<and> map callReference (snd (payForApplication sample_services [sample_opportunity] sample_user
         ''65f0c0ffee0123456789abcd'' [sample_app]))
       = [paymentReference ''65f0c0ffee0123456789abcd'' 1700000050000]
   \<and> (1700000000000::nat) \<noteq> 1700000050000
   \<and> paymentReference ''65f0c0ffee0123456789abcd'' 1700000000000
       \<noteq> paymentReference ''65f0c0ffee0123456789abcd'' 1700000050000
   \<and> CHR ''-'' \<notin> set ''65f0c0ffee0123456789abcd''
   \<and> applicationIdOf (paymentReference ''65f0c0ffee0123456789abcd'' 1700000000000)
       = ''65f0c0ffee0123456789abcd''
   \<and> chargeEvent sample_runtime sample_request
       = Inr (Some (paymentReference ''65f0c0ffee0123456789abcd'' 1700000000000,
                    Some (JNum (Num 7)), Some (JNum (Num 35000))))
   \<and> (\<exists>b'. paystackWebhookHandler sample_runtime sample_request [sample_app]
               = Inr (save b' [sample_app])
           \<and> status b' = submitted \<and> app_id b' = ''65f0c0ffee0123456789abcd'')
   \<and> fst (snd (payForApplication_mpesa
         (sample_services\<lparr>daraja_stkpush := (\<lambda>token body. Inr ''ws_CO_0'')\<rparr>)
         [sample_opportunity] sample_user ''65f0c0ffee0123456789abcd'' (Some ''0712345678'')
         [sample_app]))
       = [sample_app\<lparr>mpesaCheckoutRequestId := Some ''ws_CO_0''\<rparr>]
   \<and> map callReference (snd (snd (payForApplication_mpesa
         (sample_services\<lparr>daraja_stkpush := (\<lambda>token body. Inr ''ws_CO_0'')\<rparr>)
         [sample_opportunity] sample_user ''65f0c0ffee0123456789abcd'' (Some ''0712345678'')
         [sample_app])))
       = [''APP-65f0c0ffee0123456789abcd'']
   \<and> fst (snd (payForApplication_mpesa sample_services
         [sample_opportunity] sample_user ''65f0c0ffee0123456789abcd'' (Some ''0712345678'')
         [sample_app\<lparr>mpesaCheckoutRequestId := Some ''ws_CO_0''\<rparr>]))
       = [sample_app\<lparr>mpesaCheckoutRequestId := Some ''ws_CO_1''\<rparr>]
   \<and> js_prop (stkResult sample_callback_superseded) ''CheckoutRequestID'' = Some (JStr ''ws_CO_0'')
   \<and> store_after [sample_app\<lparr>mpesaCheckoutRequestId := Some ''ws_CO_1''\<rparr>]
         (mpesaCallback sample_runtime sample_callback_superseded
            [sample_app\<lparr>mpesaCheckoutRequestId := Some ''ws_CO_1''\<rparr>])
       = [sample_app\<lparr>mpesaCheckoutRequestId := Some ''ws_CO_1''\<rparr>]
   \<and> mpesaCallback sample_runtime sample_callback_paid
         [sample_app\<lparr>mpesaCheckoutRequestId := Some ''ws_CO_1''\<rparr>]
       = Inr [sample_app\<lparr>status := submitted, mpesaTransactionId := Some ''NLJ7RT61SV'',
                          amountPaid := Some (Num 500)\<rparr>]"
proof -
  define dv0 where "dv0 = sample_services\<lparr>daraja_stkpush := (\<lambda>token body. Inr ''ws_CO_0'')\<rparr>"
  define a0 where "a0 = sample_app\<lparr>mpesaCheckoutRequestId := Some ''ws_CO_0''\<rparr>"
  define a1 where "a1 = sample_app\<lparr>mpesaCheckoutRequestId := Some ''ws_CO_1''\<rparr>"
  have f: "findOne (\<lambda>x. app_id x = ''65f0c0ffee0123456789abcd'' \<and> userId x = user_id sample_user
              \<and> status x = pending_payment) [sample_app] = Some sample_app"
    by (simp add: findOne_def sample_app_def sample_user_def)
  have s: "PAYSTACK_SECRET_KEY sample_services = Some ''sk_live_1''"
    by (simp add: sample_services_def)
  have k: "''sk_live_1'' \<noteq> []" by simp
  have n: "now sample_services = 1700000050000" by (simp add: sample_services_def)
  have t: "(1700000000000::nat) \<noteq> 1700000050000" by simp
  have d: "CHR ''-'' \<notin> set ''65f0c0ffee0123456789abcd''" by simp
  have d1: "paymentReference ''65f0c0ffee0123456789abcd'' 1700000000000
      = ''APP-65f0c0ffee0123456789abcd-1700000000000''"
    by (simp add: paymentReference_def digit_def decimal.simps)
  have ev: "chargeEvent sample_runtime sample_request
       = Inr (Some (paymentReference ''65f0c0ffee0123456789abcd'' 1700000000000,
                    Some (JNum (Num 7)), Some (JNum (Num 35000))))"
    unfolding d1 by (rule sample_chargeEvent)
  have ph: "''0712345678'' \<noteq> []" by simp
  have g0: "getAccessToken dv0 = Inr ''token''"
    and k0: "\<forall>body. daraja_stkpush dv0 ''token'' body = Inr ''ws_CO_0''"
    by (simp_all add: dv0_def sample_services_def)
  have g1: "getAccessToken sample_services = Inr ''token''"
    and k1: "\<forall>body. daraja_stkpush sample_services ''token'' body = Inr ''ws_CO_1''"
    by (simp_all add: sample_services_def)
  have ne: "''ws_CO_0'' \<noteq> ''ws_CO_1''" by simp
  have ds: "distinct (map app_id [sample_app])" by simp
  have free: "\<forall>x \<in> set [sample_app]. mpesaCheckoutRequestId x \<noteq> Some ''ws_CO_0''
      \<and> mpesaCheckoutRequestId x \<noteq> Some ''ws_CO_1''"
    by (simp add: sample_app_def)
  have sv0: "save a0 [sample_app] = [a0]" and sv1: "save a1 [sample_app] = [a1]"
    by (simp_all add: a0_def a1_def)
  note inst = payment_reference_per_attempt[where idParam = "''65f0c0ffee0123456789abcd''"
      and u = sample_user and st = "[sample_app]" and a = sample_app and sv = sample_services
      and k = "''sk_live_1''" and opps = "[sample_opportunity]" and ?t1.0 = 1700000000000
      and ?t2.0 = 1700000050000 and aid = "''65f0c0ffee0123456789abcd''" and rt = sample_runtime
      and req = sample_request and i = "Some (JNum (Num 7))" and amt = "Some (JNum (Num 35000))"
      and st' = "[sample_app]" and b = sample_app and phone = "''0712345678''" and ?dv1.0 = dv0
      and ?token1.0 = "''token''" and ?c1.0 = "''ws_CO_0''" and ?dv2.0 = sample_services
      and ?token2.0 = "''token''" and ?c2.0 = "''ws_CO_1''" and ?cb1.0 = sample_callback_superseded
      and ?cb2.0 = sample_callback_paid and receipt = "''NLJ7RT61SV''" and paid = "Num 500"]
  from inst[THEN conjunct1, THEN mp, OF conjI[OF f conjI[OF s k]]]
  have 1: "map callReference (snd (payForApplication sample_services [sample_opportunity]
         sample_user ''65f0c0ffee0123456789abcd'' [sample_app]))
       = [paymentReference ''65f0c0ffee0123456789abcd'' 1700000050000]"
    by (simp add: sample_app_id n)
  note 2 = inst[THEN conjunct2, THEN conjunct1, THEN mp, OF t]
  note 3 = inst[THEN conjunct2, THEN conjunct2, THEN conjunct1, THEN mp, OF d]
  note 4 = inst[THEN conjunct2, THEN conjunct2, THEN conjunct2, THEN conjunct1, THEN mp,
      OF conjI[OF d conjI[OF ev conjI[OF sample_findById sample_status]]]]
  note rest = inst[THEN conjunct2, THEN conjunct2, THEN conjunct2, THEN conjunct2]
  note 5 = rest[THEN conjunct1, THEN mp, OF conjI[OF f conjI[OF ph conjI[OF g0 k0]]],
      unfolded sv0[unfolded a0_def]]
  from 5 have e5a: "fst (snd (payForApplication_mpesa dv0 [sample_opportunity] sample_user
      ''65f0c0ffee0123456789abcd'' (Some ''0712345678'') [sample_app])) = [a0]"
    and e5b: "map callReference (snd (snd (payForApplication_mpesa dv0 [sample_opportunity]
      sample_user ''65f0c0ffee0123456789abcd'' (Some ''0712345678'') [sample_app])))
      = [''APP-65f0c0ffee0123456789abcd'']"
    by (simp_all add: a0_def sample_app_id)
  note 6 = rest[THEN conjunct2, THEN mp,
      OF conjI[OF ds conjI[OF f conjI[OF ph conjI[OF g0 conjI[OF k0 conjI[OF g1 conjI[OF k1
         conjI[OF ne free]]]]]]]], unfolded Let_def e5a]
  from 6[THEN conjunct1] have e6a: "fst (snd (payForApplication_mpesa sample_services
      [sample_opportunity] sample_user ''65f0c0ffee0123456789abcd'' (Some ''0712345678'') [a0]))
      = [a1]"
    by (simp add: a1_def sample_app_id)
  note e6 = 6[THEN conjunct2, THEN conjunct2, unfolded e6a]
  from e6[THEN conjunct1, THEN mp, OF sample_superseded]
  have 7: "store_after [a1] (mpesaCallback sample_runtime sample_callback_superseded [a1]) = [a1]" .
  from e6[THEN conjunct2, THEN mp, OF conjI[OF sample_paid(1) conjI[OF sample_paid(2)
      conjI[OF sample_paid(3) conjI[OF sample_paid(4) sample_paid(5)]]]]]
  have 8: "mpesaCallback sample_runtime sample_callback_paid [a1]
       = Inr [sample_app\<lparr>status := submitted, mpesaTransactionId := Some ''NLJ7RT61SV'',
                          amountPaid := Some (Num 500)\<rparr>]"
    by (simp add: sample_app_def)
  from f s 1 t 2 d 3 ev 4 e5a e5b e6a sample_superseded 7 8 show ?thesis
    unfolding dv0_def a0_def a1_def by blast
qed

section \<open>One application per user and opportunity\<close>

lemma createApplication_store:
  "fst (snd (createApplication sv opps u rq st)) = st
   \<or> (\<exists>e r l. existingApplication u (body_opportunityId rq) st = Some e
         \<and> status e = pending_payment
         \<and> fst (snd (createApplication sv opps u rq st)) = save (overwriteExisting rq r l e) st)
   \<or> (existingApplication u (body_opportunityId rq) st = None
        \<and> (\<exists>r l. fst (snd (createApplication sv opps u rq st))
                    = create (newApplication sv u rq r l) st))"
proof (cases "existingApplication u (body_opportunityId rq) st")
  case None
  then show ?thesis
    by (auto simp: createApplication_def Let_def split: option.splits sum.splits prod.splits)
next
  case (Some e)
  show ?thesis
  proof (cases "status e = pending_payment")
    case True
    with Some show ?thesis
      by (auto simp: createApplication_def Let_def split: option.splits sum.splits prod.splits)
  next
    case False
    with Some show ?thesis
      by (simp add: createApplication_def Let_def split: option.splits)
  qed
qed

lemma overwriteExisting_keeps [simp]:
  "app_id (overwriteExisting rq r l e) = app_id e"
  "userId (overwriteExisting rq r l e) = userId e"
  "opportunityId (overwriteExisting rq r l e) = opportunityId e"
  "status (overwriteExisting rq r l e) = status e"
  by (simp_all add: overwriteExisting_def)

lemma createApplication_one_per_pair:
  assumes ids: "distinct (map app_id st)"
    and fresh: "newObjectId sv \<notin> set (map app_id st)"
    and one: "one_per_pair st"
  shows "one_per_pair (fst (snd (createApplication sv opps u rq st)))
       \<and> distinct (map app_id (fst (snd (createApplication sv opps u rq st))))"
  using createApplication_store[of sv opps u rq st]
proof (elim disjE exE conjE)
  assume "fst (snd (createApplication sv opps u rq st)) = st"
  with ids one show ?thesis by simp
next
  fix e r l
  assume ex: "existingApplication u (body_opportunityId rq) st = Some e"
    and res: "fst (snd (createApplication sv opps u rq st)) = save (overwriteExisting rq r l e) st"
  from ex have "e \<in> set st"
    by (auto simp: existingApplication_def dest: findOne_Some)
  with ids have "map (\<lambda>a. (userId a, opportunityId a)) (save (overwriteExisting rq r l e) st)
      = map (\<lambda>a. (userId a, opportunityId a)) st"
    by (intro save_frame[where a=e]) simp_all
  with ids one show ?thesis unfolding res by (simp add: one_per_pair_def)
next
  fix r l
  assume ex: "existingApplication u (body_opportunityId rq) st = None"
    and res: "fst (snd (createApplication sv opps u rq st)) = create (newApplication sv u rq r l) st"
  from ex have "\<forall>a \<in> set st. \<not> (userId a = user_id u \<and> opportunityId a = body_opportunityId rq)"
    by (simp add: existingApplication_def findOne_def find_None_iff)
  then have "(user_id u, body_opportunityId rq) \<notin> set (map (\<lambda>a. (userId a, opportunityId a)) st)"
    by auto
  with ids fresh one show ?thesis unfolding res
    by (simp add: one_per_pair_def create_def newApplication_def)
qed

lemma createApplication_existing_ids:
  assumes "existingApplication u (body_opportunityId rq) st = Some e"
  shows "map app_id (fst (snd (createApplication sv opps u rq st))) = map app_id st"
  using createApplication_store[of sv opps u rq st] assms by auto

lemma createApplication_already_applied:
  assumes "existingApplication u (body_opportunityId rq) st = Some e"
    and "status e \<noteq> pending_payment"
    and "find (\<lambda>opp. opp_id opp = body_opportunityId rq) opps = Some opportunity"
    and "isActive opportunity"
  shows "createApplication sv opps u rq st
           = (\<lparr>statusCode = 400, message = ''You have already applied''\<rparr>, st, [])"
  using assms by (simp add: createApplication_def)

lemma createApplication_overwrites:
  assumes "existingApplication u (body_opportunityId rq) st = Some e"
    and "status e = pending_payment"
    and "find (\<lambda>opp. opp_id opp = body_opportunityId rq) opps = Some opportunity"
    and "isActive opportunity"
    and "file_resume rq = Some f"
    and "opp_type opportunity = ''attachment'' \<longrightarrow> file_recommendationLetter rq \<noteq> None"
    and "uploadDocuments sv f (file_recommendationLetter rq) = Inr (r, l)"
  shows "fst (snd (createApplication sv opps u rq st)) = save (overwriteExisting rq r l e) st"
  using assms by (auto simp: createApplication_def Let_def split: prod.splits sum.splits)

lemma save_found_frame:
  "findById (app_id a') st = Some a \<Longrightarrow> f a' = f a \<Longrightarrow> map f (save a' st) = map f st"
  by (induction st) (auto simp: findById_def findOne_def split: if_splits)

lemma step_keeps_pairs:
  assumes "distinct (map app_id st)"
  shows "map (\<lambda>a. (userId a, opportunityId a)) (step rt op st)
           = map (\<lambda>a. (userId a, opportunityId a)) st"
proof (cases op)
  case (MpesaCallback body)
  have "map (\<lambda>a. (userId a, opportunityId a)) (save a' st)
      = map (\<lambda>a. (userId a, opportunityId a)) st"
    if "findOne P st = Some a" "callbackUpdate rt sc t n a = Inr a'" for P a a' sc t n
    using assms callbackUpdate_InrD[OF that(2)] findOne_Some[OF that(1)]
    by (intro save_frame[where a=a]) simp_all
  with MpesaCallback show ?thesis
    by (auto simp: mpesaCallback_def store_after_def Let_def split: sum.splits option.splits)
next
  case (WebhookDelivery req)
  show ?thesis
  proof (cases "chargeEvent rt req")
    case (Inl e)
    with WebhookDelivery show ?thesis by (simp add: paystackWebhookHandler_def store_after_def)
  next
    case (Inr x)
    show ?thesis
    proof (cases x)
      case None
      with Inr WebhookDelivery show ?thesis
        by (simp add: paystackWebhookHandler_def store_after_def)
    next
      case (Some ev)
      obtain r i amt where ev: "ev = (r, i, amt)" by (cases ev)
      have h: "paystackWebhookHandler rt req st =
        Inr (case findById (applicationIdOf r) st of
            None \<Rightarrow> st
          | Some a \<Rightarrow>
              if status a \<noteq> pending_payment then st
              else save (case nonNull amt of
                           None \<Rightarrow> a\<lparr>status := submitted,
                                      paymentTransactionId := Some (js_String rt (coalesce i (JStr r)))\<rparr>
                         | Some v \<Rightarrow> a\<lparr>status := submitted,
                                        paymentTransactionId := Some (js_String rt (coalesce i (JStr r))),
                                        amountPaid := Some (js_div (js_Number rt v) 100)\<rparr>) st)"
        using Inr Some ev by (intro handler_on_event) simp
      show ?thesis
      proof (cases "findById (applicationIdOf r) st")
        case None
        with h WebhookDelivery show ?thesis by (simp add: store_after_def)
      next
        case (Some a)
        from findById_Some_app_id[OF Some] have id: "app_id a = applicationIdOf r" .
        have "map (\<lambda>a. (userId a, opportunityId a)) (save a' st)
            = map (\<lambda>a. (userId a, opportunityId a)) st"
          if "app_id a' = app_id a" "userId a' = userId a" "opportunityId a' = opportunityId a" for a'
          using Some that id by (intro save_found_frame[where a=a]) simp_all
        with h Some WebhookDelivery show ?thesis
          by (simp add: store_after_def split: option.splits)
      qed
    qed
  qed
next
  case (AdminStatusEdit idParam body)
  have "map (\<lambda>a. (userId a, opportunityId a)) (save (a\<lparr>status := s\<rparr>) st)
      = map (\<lambda>a. (userId a, opportunityId a)) st" if "findById idParam st = Some a" for a s
    using that findById_Some_app_id[OF that] by (intro save_found_frame[where a=a]) simp_all
  with AdminStatusEdit show ?thesis
    by (simp add: adminUpdateStatus_snd split: option.splits json.splits)
qed

lemma run_keeps_pairs:
  "distinct (map app_id st) \<Longrightarrow>
     map (\<lambda>a. (userId a, opportunityId a)) (run rt ops st)
       = map (\<lambda>a. (userId a, opportunityId a)) st"
  by (induction ops arbitrary: st) (simp_all add: step_keeps_pairs step_ids)

lemma updateApplication_keeps_pairs:
  assumes "distinct (map app_id st)"
  shows "map (\<lambda>a. (userId a, opportunityId a)) (snd (updateApplication u idParam body st))
           = map (\<lambda>a. (userId a, opportunityId a)) st"
proof (cases "findOne (\<lambda>a. app_id a = idParam \<and> userId a = user_id u) st")
  case None
  then show ?thesis by (simp add: updateApplication_snd)
next
  case (Some x)
  then have "x \<in> set st" by (auto simp: findOne_def find_Some_iff)
  with assms have "map (\<lambda>a. (userId a, opportunityId a)) (save (x\<lparr>coverLetter := c\<rparr>) st)
      = map (\<lambda>a. (userId a, opportunityId a)) st" for c
    by (intro save_frame[where a=x]) simp_all
  with Some show ?thesis by (simp add: updateApplication_snd)
qed

lemma findByIdAndDelete_subset: "set (findByIdAndDelete i st) \<subseteq> set st"
  by (induction st) auto

lemma distinct_map_findByIdAndDelete:
  "distinct (map f st) \<Longrightarrow> distinct (map f (findByIdAndDelete i st))"
proof (induction st)
  case Nil
  then show ?case by simp
next
  case (Cons b st)
  then show ?case using findByIdAndDelete_subset[of i st] by auto
qed

lemma withdrawApplication_one_per_pair:
  "one_per_pair st \<Longrightarrow> one_per_pair (snd (withdrawApplication u idParam st))"
  by (simp add: withdrawApplication_def one_per_pair_def distinct_map_findByIdAndDelete
      split: option.splits)

text \<open>
  C4. The claim is that a request to apply while an application of the same user for
  the same opportunity is in \<open>pending_payment\<close> reuses that application. The
  Paystack version of \<^verbatim>\<open>POST /\<close> does; the Daraja version lets the request through
  its guard and then always calls \<^verbatim>\<open>Application.create\<close>: for the sample request
  the store holds two applications of user \<^verbatim>\<open>u1\<close> for opportunity \<^verbatim>\<open>o1\<close>
  afterwards, both in \<open>pending_payment\<close>.
\<close>

theorem mpesa_creation_duplicates_application:
  "one_per_pair [sample_app]
   \<and> existingApplication sample_user (body_opportunityId sample_create_request) [sample_app]
       = Some sample_app
   \<and> status sample_app = pending_payment
   \<and> map (\<lambda>a. (app_id a, userId a, opportunityId a, status a))
        (fst (snd (createApplication_mpesa sample_services [sample_opportunity] sample_user
                     sample_create_request [sample_app])))
     = [(''65f0c0ffee0123456789abcd'', ''u1'', ''o1'', pending_payment),
        (''65f0c0ffee0123456789abce'', ''u1'', ''o1'', pending_payment)]
   \<and> \<not> one_per_pair
        (fst (snd (createApplication_mpesa sample_services [sample_opportunity] sample_user
                     sample_create_request [sample_app])))
   \<and> map (\<lambda>a. (app_id a, userId a, opportunityId a, status a))
        (fst (snd (createApplication sample_services [sample_opportunity] sample_user
                     sample_create_request [sample_app])))
     = [(''65f0c0ffee0123456789abcd'', ''u1'', ''o1'', pending_payment)]"
proof -
  have e: "existingApplication sample_user (body_opportunityId sample_create_request) [sample_app]
       = Some sample_app"
    by (simp add: existingApplication_def findOne_def sample_app_def sample_user_def
        sample_create_request_def)
  have m: "map (\<lambda>a. (app_id a, userId a, opportunityId a, status a))
        (fst (snd (createApplication_mpesa sample_services [sample_opportunity] sample_user
                     sample_create_request [sample_app])))
     = [(''65f0c0ffee0123456789abcd'', ''u1'', ''o1'', pending_payment),
        (''65f0c0ffee0123456789abce'', ''u1'', ''o1'', pending_payment)]"
    by (simp add: createApplication_mpesa_def sample_opportunity_def sample_services_def
      sample_user_def sample_create_request_def sample_app_def existingApplication_def findOne_def
      uploadDocuments_def newApplication_def coverLetterOr_def mpesaAmount_def
      initiateSTKPush_def startsWith_def create_def Let_def)
  have "map (\<lambda>a. (userId a, opportunityId a))
        (fst (snd (createApplication_mpesa sample_services [sample_opportunity] sample_user
                     sample_create_request [sample_app])))
     = map (\<lambda>(i, u, opp, s). (u, opp)) (map (\<lambda>a. (app_id a, userId a, opportunityId a, status a))
        (fst (snd (createApplication_mpesa sample_services [sample_opportunity] sample_user
                     sample_create_request [sample_app]))))"
    by (simp add: comp_def)
  then have n: "\<not> one_per_pair
        (fst (snd (createApplication_mpesa sample_services [sample_opportunity] sample_user
                     sample_create_request [sample_app])))"
    unfolding one_per_pair_def m by (simp add: comp_def)
  have p: "map (\<lambda>a. (app_id a, userId a, opportunityId a, status a))
        (fst (snd (createApplication sample_services [sample_opportunity] sample_user
                     sample_create_request [sample_app])))
     = [(''65f0c0ffee0123456789abcd'', ''u1'', ''o1'', pending_payment)]"
    by (simp add: createApplication_def sample_opportunity_def sample_services_def
      sample_user_def sample_create_request_def sample_app_def existingApplication_def findOne_def
      uploadDocuments_def overwriteExisting_def coverLetterOr_def getPaymentLink_def
      initializeTransaction_def Let_def)
  have o: "one_per_pair [sample_app]" by (simp add: one_per_pair_def)
  from o e sample_status m n p show ?thesis by blast
qed

text \<open>
  The Paystack version keeps the property. On a store whose documents have distinct
  identifiers and a fresh identifier for the new document: if no two
  applications are of the same user for the same opportunity before the request, none
  are after it. When an application of that user for that opportunity exists, no
  document is added; if it is in \<open>pending_payment\<close> and the request passes the
  checks, it is overwritten with the new documents; if it is in any other status and
  the opportunity exists and is active, the answer is 400 \<^verbatim>\<open>You have already applied\<close>
  and the store is as it was. The other operations of that version that write
  applications keep the property too: any sequence of webhook deliveries and
  administrator edits, the owner's update and the owner's withdrawal.
\<close>

theorem create_keeps_one_per_pair:
  assumes "distinct (map app_id st)"
    and "newObjectId sv \<notin> set (map app_id st)"
    and "one_per_pair st"
  shows "one_per_pair (fst (snd (createApplication sv opps u rq st)))
       \<and> distinct (map app_id (fst (snd (createApplication sv opps u rq st))))
       \<and> (existingApplication u (body_opportunityId rq) st = Some e
            \<longrightarrow> map app_id (fst (snd (createApplication sv opps u rq st))) = map app_id st)
       \<and> (existingApplication u (body_opportunityId rq) st = Some e
            \<and> status e = pending_payment
            \<and> find (\<lambda>opp. opp_id opp = body_opportunityId rq) opps = Some opportunity
            \<and> isActive opportunity
            \<and> file_resume rq = Some f
            \<and> (opp_type opportunity = ''attachment'' \<longrightarrow> file_recommendationLetter rq \<noteq> None)
            \<and> uploadDocuments sv f (file_recommendationLetter rq) = Inr (r, l)
            \<longrightarrow> fst (snd (createApplication sv opps u rq st))
                  = save (overwriteExisting rq r l e) st)
       \<and> (existingApplication u (body_opportunityId rq) st = Some e
            \<and> status e \<noteq> pending_payment
            \<and> find (\<lambda>opp. opp_id opp = body_opportunityId rq) opps = Some opportunity
            \<and> isActive opportunity
            \<longrightarrow> createApplication sv opps u rq st
                  = (\<lparr>statusCode = 400, message = ''You have already applied''\<rparr>, st, []))
       \<and> one_per_pair (run rt ops st)
       \<and> one_per_pair (snd (updateApplication owner idParam body st))
       \<and> one_per_pair (snd (withdrawApplication owner idParam st))"
proof -
  have "one_per_pair (run rt ops st)"
    using assms(3) by (simp add: one_per_pair_def run_keeps_pairs[OF assms(1)])
  moreover have "one_per_pair (snd (updateApplication owner idParam body st))"
    using assms(3) by (simp add: one_per_pair_def updateApplication_keeps_pairs[OF assms(1)])
  moreover have "one_per_pair (snd (withdrawApplication owner idParam st))"
    using assms(3) by (rule withdrawApplication_one_per_pair)
  ultimately show ?thesis
    using createApplication_one_per_pair[OF assms, of opps u rq]
      createApplication_existing_ids[of u rq st e sv opps]
      createApplication_overwrites[of u rq st e opps opportunity f sv r l]
      createApplication_already_applied[of u rq st e opps opportunity sv]
    by blast
qed

theorem create_keeps_one_per_pair_witness:
  "distinct (map app_id [sample_app])
   \<and> newObjectId sample_services \<notin> set (map app_id [sample_app])
   \<and> one_per_pair [sample_app]
   \<and> existingApplication sample_user (body_opportunityId sample_create_request) [sample_app]
       = Some sample_app
   \<and> one_per_pair (fst (snd (createApplication sample_services [sample_opportunity] sample_user
         sample_create_request [sample_app])))
   \<and> fst (snd (createApplication sample_services [sample_opportunity] sample_user
         sample_create_request [sample_app]))
       = [sample_app\<lparr>resumeUrl := ''https://files.example/internship-platform/resumes''\<rparr>]
   \<and> createApplication sample_services [sample_opportunity] sample_user sample_create_request
         [sample_app\<lparr>status := submitted\<rparr>]
       = (\<lparr>statusCode = 400, message = ''You have already applied''\<rparr>,
          [sample_app\<lparr>status := submitted\<rparr>], [])
   \<and> one_per_pair (run sample_runtime [WebhookDelivery sample_request] [sample_app])
   \<and> one_per_pair (snd (withdrawApplication sample_user ''65f0c0ffee0123456789abcd''
         [sample_app]))"
proof -
  have d: "distinct (map app_id [sample_app])" "distinct (map app_id [sample_app\<lparr>status := submitted\<rparr>])"
    by simp_all
  have n: "newObjectId sample_services \<notin> set (map app_id [sample_app])"
    "newObjectId sample_services \<notin> set (map app_id [sample_app\<lparr>status := submitted\<rparr>])"
    by (simp_all add: sample_services_def sample_app_id)
  have o: "one_per_pair [sample_app]" "one_per_pair [sample_app\<lparr>status := submitted\<rparr>]"
    by (simp_all add: one_per_pair_def)
  have e1: "existingApplication sample_user (body_opportunityId sample_create_request) [sample_app]
       = Some sample_app"
    by (simp add: existingApplication_def findOne_def sample_app_def sample_user_def
        sample_create_request_def)
  have e2: "existingApplication sample_user (body_opportunityId sample_create_request)
        [sample_app\<lparr>status := submitted\<rparr>] = Some (sample_app\<lparr>status := submitted\<rparr>)"
    by (simp add: existingApplication_def findOne_def sample_app_def sample_user_def
        sample_create_request_def)
  have opp: "find (\<lambda>opp. opp_id opp = body_opportunityId sample_create_request) [sample_opportunity]
      = Some sample_opportunity"
    by (simp add: sample_opportunity_def sample_create_request_def)
  have act: "isActive sample_opportunity" by (simp add: sample_opportunity_def)
  have res: "file_resume sample_create_request = Some ''%PDF-1.7''"
    by (simp add: sample_create_request_def)
  have att: "opp_type sample_opportunity = ''attachment''
      \<longrightarrow> file_recommendationLetter sample_create_request \<noteq> None"
    by (simp add: sample_opportunity_def)
  have up: "uploadDocuments sample_services ''%PDF-1.7''
        (file_recommendationLetter sample_create_request)
      = Inr (''https://files.example/internship-platform/resumes'', None)"
    by (simp add: uploadDocuments_def sample_services_def sample_create_request_def)
  have ns: "status (sample_app\<lparr>status := submitted\<rparr>) \<noteq> pending_payment" by simp
  note a = create_keeps_one_per_pair[OF d(1) n(1) o(1), of "[sample_opportunity]" sample_user
      sample_create_request sample_app sample_opportunity "''%PDF-1.7''"
      "''https://files.example/internship-platform/resumes''" None sample_runtime
      "[WebhookDelivery sample_request]" sample_user "''65f0c0ffee0123456789abcd''"]
  note b = create_keeps_one_per_pair[OF d(2) n(2) o(2), of "[sample_opportunity]" sample_user
      sample_create_request "sample_app\<lparr>status := submitted\<rparr>" sample_opportunity]
  from a[THEN conjunct2, THEN conjunct2, THEN conjunct2, THEN conjunct1, THEN mp,
      OF conjI[OF e1 conjI[OF sample_status conjI[OF opp conjI[OF act conjI[OF res conjI[OF att up]]]]]]]
  have s: "fst (snd (createApplication sample_services [sample_opportunity] sample_user
         sample_create_request [sample_app]))
       = [sample_app\<lparr>resumeUrl := ''https://files.example/internship-platform/resumes''\<rparr>]"
    by (simp add: overwriteExisting_def coverLetterOr_def sample_create_request_def sample_app_def)
  note c = b[THEN conjunct2, THEN conjunct2, THEN conjunct2, THEN conjunct2, THEN conjunct1, THEN mp,
      OF conjI[OF e2 conjI[OF ns conjI[OF opp act]]]]
  note t = a[THEN conjunct2, THEN conjunct2, THEN conjunct2, THEN conjunct2, THEN conjunct2]
  from d(1) n(1) o(1) e1 a[THEN conjunct1] s c t[THEN conjunct1]
    t[THEN conjunct2, THEN conjunct2]
  show ?thesis by blast
qed

section \<open>Whole units and subunits\<close>

lemma roundHalfEven_of_int [simp]: "roundHalfEven (of_int m) = m"
  by (simp add: roundHalfEven_def)

lemma bitlen_one: "bitlen 1 = 1"
  by (simp add: bitlen_alt_def)

lemma exponent_of_int:
  assumes "k \<noteq> 0"
  shows "exponent (of_int k) = bitlen \<bar>k\<bar> - 1"
proof -
  have pos: "0 < \<bar>k\<bar>" using assms by simp
  then have b1: "1 \<le> bitlen \<bar>k\<bar>" by (simp add: bitlen_ge_iff_power)
  have q: "quotient_of \<bar>of_int k :: rat\<bar> = (\<bar>k\<bar>, 1)"
    by (simp flip: of_int_abs add: quotient_of_int)
  from bitlen_bounds[OF pos] have "2 ^ nat (bitlen \<bar>k\<bar> - 1) \<le> \<bar>k\<bar>" by simp
  then have "(of_int (2 ^ nat (bitlen \<bar>k\<bar> - 1)) :: rat) \<le> of_int \<bar>k\<bar>"
    by (simp only: of_int_le_iff)
  then have le: "(2::rat) powi (bitlen \<bar>k\<bar> - 1) \<le> \<bar>of_int k\<bar>"
    using b1 by (simp add: power_int_def)
  show ?thesis
    unfolding exponent_def q using le by (simp add: bitlen_one)
qed

lemma fl_exact:
  assumes "x = of_int m * 2 powi (max (exponent x) (- 1022) - 52)"
  shows "fl x = x"
proof (cases "x = 0")
  case True
  then show ?thesis by (simp add: fl_def)
next
  case False
  define u :: rat where "u = 2 powi (max (exponent x) (- 1022) - 52)"
  have u: "u \<noteq> 0" by (simp add: u_def)
  have xu: "x = of_int m * u" using assms by (simp only: u_def)
  then have "x / u = of_int m" using u by simp
  then have "of_int (roundHalfEven (x / u)) * u = of_int m * u" by simp
  with xu have "of_int (roundHalfEven (x / u)) * u = x" by simp
  with False show ?thesis by (simp add: fl_def Let_def u_def)
qed

lemma fl_of_int:
  assumes dvd: "2 ^ j dvd k" and small: "\<bar>k\<bar> < 2 ^ (53 + j)"
  shows "fl (of_int k) = of_int k"
proof (cases "k = 0")
  case True
  then show ?thesis by (simp add: fl_def)
next
  case False
  define e where "e = bitlen \<bar>k\<bar> - 1"
  have pos: "0 < \<bar>k\<bar>" using False by simp
  then have "1 \<le> bitlen \<bar>k\<bar>" by (simp add: bitlen_ge_iff_power)
  then have e0: "0 \<le> e" by (simp add: e_def)
  have ex: "exponent (of_int k) = e" by (simp add: exponent_of_int[OF False] e_def)
  have mx: "max e (- 1022) = e" using e0 by simp
  from small have "\<bar>k\<bar> < 2 ^ nat (int (53 + j))" by (simp only: nat_int)
  then have "bitlen \<bar>k\<bar> \<le> int (53 + j)"
    unfolding bitlen_le_iff_power by (intro conjI) simp_all
  then have ej: "e \<le> 52 + int j" by (simp add: e_def)
  have "\<exists>m. (of_int k :: rat) = of_int m * 2 powi (e - 52)"
  proof (cases "e \<le> 52")
    case True
    then have "(2::rat) powi (e - 52) = inverse (2 ^ nat (52 - e))"
      by (simp add: power_int_def power_one_over inverse_eq_divide)
    then have "(of_int k :: rat) = of_int (k * 2 ^ nat (52 - e)) * 2 powi (e - 52)"
      by simp
    then show ?thesis by blast
  next
    case False
    then have p: "(2::rat) powi (e - 52) = 2 ^ nat (e - 52)"
      by (simp add: power_int_def)
    from False ej have "nat (e - 52) \<le> j" by simp
    then have "(2::int) ^ nat (e - 52) dvd 2 ^ j" by (rule le_imp_power_dvd)
    from dvd_trans[OF this dvd] have "(2::int) ^ nat (e - 52) dvd k" .
    then obtain m where "k = 2 ^ nat (e - 52) * m" by (auto simp: dvd_def)
    then have "(of_int k :: rat) = of_int m * 2 ^ nat (e - 52)" by simp
    with p show ?thesis by metis
  qed
  then obtain m where m: "(of_int k :: rat) = of_int m * 2 powi (e - 52)" by blast
  have "(of_int k :: rat) = of_int m * 2 powi (max (exponent (of_int k)) (- 1022) - 52)"
    unfolding ex mx by (rule m)
  then show ?thesis by (rule fl_exact)
qed

lemma toDouble_of_int:
  assumes "2 ^ j dvd k" and "\<bar>k\<bar> < 2 ^ (53 + j)" and "j \<le> 3"
  shows "toDouble (of_int k) = Num (of_int k)"
proof -
  have "(2::int) ^ (53 + j) \<le> 2 ^ 56" using assms(3) by (intro power_increasing) simp_all
  with assms(2) have "\<bar>k\<bar> < 2 ^ 56" by simp
  moreover have "(2::int) ^ 56 < 2 ^ 1024" by (intro power_strict_increasing) simp_all
  ultimately have b: "\<bar>k\<bar> < 2 ^ 1024" by simp
  then have "k < 2 ^ 1024" "- (2 ^ 1024) < k" by simp_all
  then have "(of_int k :: rat) < of_int (2 ^ 1024)" "(of_int (- (2 ^ 1024)) :: rat) < of_int k"
    by (simp_all only: of_int_less_iff)
  then have "\<not> 2 powi 1024 \<le> (of_int k :: rat)" "\<not> (of_int k :: rat) \<le> - (2 powi 1024)"
    by simp_all
  then show ?thesis
    by (simp add: toDouble_def fl_of_int[OF assms(1,2)] Let_def)
qed

lemma Math_round_of_int [simp]: "Math_round (Num (of_int k)) = Num (of_int k)"
proof -
  have "\<lfloor>(of_int k :: rat) + 1 / 2\<rfloor> = k" by (simp add: floor_eq_iff)
  then show ?thesis by simp
qed

lemma amountInSmallest_of_int:
  assumes "\<bar>n\<bar> \<le> 360287970189640"
  shows "amountInSmallest (Num (of_int n)) = Num (of_int (n * 100))"
proof -
  have "toDouble (of_int (n * 100)) = Num (of_int (n * 100))"
  proof (cases "\<bar>n\<bar> \<le> 360287970189639")
    case True
    have "(2::int) ^ 2 dvd n * 100" by simp
    moreover from True have "\<bar>n * 100\<bar> < 2 ^ (53 + 2)" by (simp add: abs_mult)
    ultimately show ?thesis by (rule toDouble_of_int) simp
  next
    case False
    with assms have "\<bar>n\<bar> = 360287970189640" by simp
    then have n: "n = 360287970189640 \<or> n = - 360287970189640" by (simp add: abs_if split: if_splits)
    then have "(2::int) ^ 3 dvd n * 100" by auto
    moreover from n have "\<bar>n * 100\<bar> < 2 ^ (53 + 3)" by auto
    ultimately show ?thesis by (rule toDouble_of_int) simp
  qed
  moreover have "(of_int n :: rat) * 100 = of_int (n * 100)" by simp
  ultimately have "js_mul (Num (of_int n)) 100 = Num (of_int (n * 100))"
    by (simp only: js_mul.simps)
  then show ?thesis
    unfolding amountInSmallest_def by (simp only: Math_round_of_int)
qed

lemma js_div_100_of_int:
  assumes "\<bar>n\<bar> \<le> 360287970189640"
  shows "js_div (Num (of_int (n * 100))) 100 = Num (of_int n)"
proof -
  have "(2::int) ^ 0 dvd n" by simp
  moreover from assms have "\<bar>n\<bar> < 2 ^ (53 + 0)" by simp
  ultimately have "toDouble (of_int n) = Num (of_int n)" by (rule toDouble_of_int) simp
  then show ?thesis by simp
qed

lemma initializeTransaction_amount:
  "PAYSTACK_SECRET_KEY sv = Some k \<Longrightarrow> k \<noteq> [] \<Longrightarrow>
     map callAmount (snd (initializeTransaction sv args)) = [amountInSmallest (amount args)]"
  by (simp add: initializeTransaction_def Let_def split: sum.splits)

lemma confirmation_amountPaid:
  assumes "chargeEvent rt req = Inr (Some (r, i, Some (JNum x)))"
    and "findById (applicationIdOf r) st = Some a"
    and "status a = pending_payment"
  shows "\<exists>a'. paystackWebhookHandler rt req st = Inr (save a' st)
           \<and> amountPaid a' = Some (js_div x 100)"
proof -
  define a' where "a' = a\<lparr>status := submitted,
      paymentTransactionId := Some (js_String rt (coalesce i (JStr r))),
      amountPaid := Some (js_div x 100)\<rparr>"
  have "paystackWebhookHandler rt req st = Inr (save a' st)"
    using assms(2,3) by (simp add: handler_on_event[OF assms(1)] js_Number_def a'_def)
  moreover have "amountPaid a' = Some (js_div x 100)" by (simp add: a'_def)
  ultimately show ?thesis by blast
qed

lemma exponent_bounds:
  assumes "x \<noteq> 0"
  shows "2 powi exponent x \<le> \<bar>x\<bar> \<and> \<bar>x\<bar> < 2 powi (exponent x + 1)"
proof -
  obtain p q where pq: "quotient_of \<bar>x\<bar> = (p, q)" by (cases "quotient_of \<bar>x\<bar>")
  have q: "0 < q" by (rule quotient_of_denom_pos[OF pq])
  have x: "\<bar>x\<bar> = of_int p / of_int q" by (rule quotient_of_div[OF pq])
  have "0 < \<bar>x\<bar>" using assms by simp
  then have p: "0 < p" unfolding x using q by (simp add: zero_less_divide_iff)
  define a where "a = bitlen p - bitlen q"
  have bp: "1 \<le> bitlen p" and bq: "1 \<le> bitlen q"
    using p q by (simp_all add: bitlen_ge_iff_power)
  from bitlen_bounds[OF p] have "(of_int (2 ^ nat (bitlen p - 1)) :: rat) \<le> of_int p"
    and "(of_int p :: rat) < of_int (2 ^ nat (bitlen p))"
    by (simp_all only: of_int_le_iff of_int_less_iff)
  then have p1: "(2::rat) powi (bitlen p - 1) \<le> of_int p"
    and p2: "(of_int p :: rat) < 2 powi bitlen p"
    using bp by (simp_all add: power_int_def)
  from bitlen_bounds[OF q] have "(of_int (2 ^ nat (bitlen q - 1)) :: rat) \<le> of_int q"
    and "(of_int q :: rat) < of_int (2 ^ nat (bitlen q))"
    by (simp_all only: of_int_le_iff of_int_less_iff)
  then have q1: "(2::rat) powi (bitlen q - 1) \<le> of_int q"
    and q2: "(of_int q :: rat) < 2 powi bitlen q"
    using bq by (simp_all add: power_int_def)
  have qpos: "(0::rat) < of_int q" using q by simp
  have ppos: "(0::rat) < of_int p" using p by simp
  have "of_int p / of_int q < (2::rat) powi bitlen p / 2 powi (bitlen q - 1)"
    by (rule frac_less) (use p2 q1 qpos ppos in simp_all)
  also have "(2::rat) powi bitlen p / 2 powi (bitlen q - 1) = 2 powi (a + 1)"
    by (simp add: a_def power_int_diff[symmetric] algebra_simps)
  finally have upper: "\<bar>x\<bar> < 2 powi (a + 1)" unfolding x .
  have "(2::rat) powi (bitlen p - 1) / 2 powi bitlen q < of_int p / of_int q"
    by (rule frac_less2) (use p1 q2 qpos ppos in simp_all)
  moreover have "(2::rat) powi (bitlen p - 1) / 2 powi bitlen q = 2 powi (a - 1)"
    by (simp add: a_def power_int_diff[symmetric] algebra_simps)
  ultimately have lower: "2 powi (a - 1) < \<bar>x\<bar>" unfolding x by simp
  have e: "exponent x = (if 2 powi a \<le> \<bar>x\<bar> then a else a - 1)"
    by (simp add: exponent_def pq a_def)
  show ?thesis
  proof (cases "2 powi a \<le> \<bar>x\<bar>")
    case True
    with upper e show ?thesis by simp
  next
    case False
    with lower e show ?thesis by simp
  qed
qed

lemma exponent_unique:
  assumes "x \<noteq> 0" and lo: "2 powi e \<le> \<bar>x\<bar>" and hi: "\<bar>x\<bar> < 2 powi (e + 1)"
  shows "exponent x = e"
proof (rule ccontr)
  assume ne: "exponent x \<noteq> e"
  from exponent_bounds[OF assms(1)] have lo': "2 powi exponent x \<le> \<bar>x\<bar>"
    and hi': "\<bar>x\<bar> < 2 powi (exponent x + 1)" by simp_all
  show False
  proof (cases "exponent x < e")
    case True
    then have "exponent x + 1 \<le> e" by simp
    then have "(2::rat) powi (exponent x + 1) \<le> 2 powi e" by (rule power_int_increasing) simp
    with lo hi' show False by simp
  next
    case False
    with ne have "e + 1 \<le> exponent x" by simp
    then have "(2::rat) powi (e + 1) \<le> 2 powi exponent x" by (rule power_int_increasing) simp
    with lo' hi show False by simp
  qed
qed

lemma roundHalfEven_down:
  "of_int m \<le> x \<Longrightarrow> x < of_int m + 1 / 2 \<Longrightarrow> roundHalfEven x = m"
proof -
  assume a: "of_int m \<le> x" "x < of_int m + 1 / 2"
  then have "\<lfloor>x\<rfloor> = m" by (intro floor_unique) simp_all
  with a show ?thesis by (simp add: roundHalfEven_def)
qed

lemma roundHalfEven_tie:
  "x = of_int m + 1 / 2 \<Longrightarrow> even m \<Longrightarrow> roundHalfEven x = m"
proof -
  assume a: "x = of_int m + 1 / 2" "even m"
  then have "\<lfloor>x\<rfloor> = m" by (intro floor_unique) simp_all
  with a show ?thesis by (simp add: roundHalfEven_def)
qed

lemma fl_eval:
  assumes "x \<noteq> 0" and "2 powi e \<le> \<bar>x\<bar>" and "\<bar>x\<bar> < 2 powi (e + 1)" and "- 1022 \<le> e"
    and "roundHalfEven (x / 2 powi (e - 52)) = m"
  shows "fl x = of_int m * 2 powi (e - 52)"
  using assms(1,4,5) by (simp add: fl_def exponent_unique[OF assms(1-3)] Let_def max_def)

lemma fl_36028797018964100: "fl 36028797018964100 = 36028797018964096"
proof -
  have "roundHalfEven (36028797018964100 / 2 powi (55 - 52)) = 4503599627370512"
    by (rule roundHalfEven_tie) simp_all
  then have "fl 36028797018964100 = of_int 4503599627370512 * 2 powi (55 - 52)"
    by (intro fl_eval) simp_all
  then show ?thesis by simp
qed

lemma fl_36028797018964096_over_100:
  "fl (36028797018964096 / 100) = 5764607523034255 / 16"
proof -
  have "roundHalfEven (36028797018964096 / 100 / 2 powi (48 - 52)) = 5764607523034255"
    by (rule roundHalfEven_down) simp_all
  then have "fl (36028797018964096 / 100) = of_int 5764607523034255 * 2 powi (48 - 52)"
    by (intro fl_eval) simp_all
  then show ?thesis by simp
qed
text \<open>
  C8, as the claim states it, fails: the amounts are doubles. The product of the
  whole amount 360287970189641 by 100 is not a double; it is rounded to
  36028797018964096, and that over 100 is rounded to 360287970189640.9375.
\<close>

theorem large_amount_does_not_round_trip:
  "amountInSmallest (Num 360287970189641) = Num 36028797018964096
   \<and> js_div (amountInSmallest (Num 360287970189641)) 100 = Num (5764607523034255 / 16)
   \<and> js_div (amountInSmallest (Num 360287970189641)) 100 \<noteq> Num 360287970189641"
proof -
  have "toDouble 36028797018964100 = Num 36028797018964096"
    by (simp add: toDouble_def fl_36028797018964100)
  then have m: "js_mul (Num 360287970189641) 100 = Num 36028797018964096" by simp
  have r: "Math_round (Num 36028797018964096) = Num 36028797018964096"
    using Math_round_of_int[of 36028797018964096] by simp
  have a: "amountInSmallest (Num 360287970189641) = Num 36028797018964096"
    unfolding amountInSmallest_def m r ..
  have "toDouble (36028797018964096 / 100) = Num (5764607523034255 / 16)"
    unfolding toDouble_def fl_36028797018964096_over_100 by simp
  then have b: "js_div (Num 36028797018964096) 100 = Num (5764607523034255 / 16)" by simp
  have c: "(5764607523034255 / 16 :: rat) \<noteq> 360287970189641" by simp
  from a b c show ?thesis by simp
qed
text \<open>
  C8, amended. For every integer amount \<open>n\<close> of whole units with
  \<open>\<bar>n\<bar> \<le> 360287970189640\<close>: \<^verbatim>\<open>initializeTransaction\<close> sends
  \<^verbatim>\<open>Math.round(n * 100)\<close>, which is exactly \<open>100 n\<close>; the webhook stores the
  confirmed amount over 100 in \<open>amountPaid\<close>, which for \<open>100 n\<close> is exactly \<open>n\<close>.
  So 350 goes out as 35000 and comes back as 350.
\<close>

theorem amount_round_trip:
  assumes "\<bar>n\<bar> \<le> 360287970189640"
  shows "amountInSmallest (Num (of_int n)) = Num (of_int (n * 100))
       \<and> js_div (amountInSmallest (Num (of_int n))) 100 = Num (of_int n)
       \<and> (PAYSTACK_SECRET_KEY sv = Some k \<and> k \<noteq> [] \<and> amount args = Num (of_int n)
            \<longrightarrow> map callAmount (snd (initializeTransaction sv args)) = [Num (of_int (n * 100))])
       \<and> (chargeEvent rt req = Inr (Some (r, i, Some (JNum (Num (of_int (n * 100))))))
            \<and> findById (applicationIdOf r) st = Some a \<and> status a = pending_payment
            \<longrightarrow> paystackWebhookHandler rt req st
                  = Inr (save (a\<lparr>status := submitted,
                                  paymentTransactionId := Some (js_String rt (coalesce i (JStr r))),
                                  amountPaid := Some (Num (of_int n))\<rparr>) st)
                \<and> findById (applicationIdOf r)
                      (store_after st (paystackWebhookHandler rt req st))
                  = Some (a\<lparr>status := submitted,
                            paymentTransactionId := Some (js_String rt (coalesce i (JStr r))),
                            amountPaid := Some (Num (of_int n))\<rparr>))"
proof (intro conjI impI)
  show 1: "amountInSmallest (Num (of_int n)) = Num (of_int (n * 100))"
    using assms by (rule amountInSmallest_of_int)
  show "js_div (amountInSmallest (Num (of_int n))) 100 = Num (of_int n)"
    unfolding 1 using assms by (rule js_div_100_of_int)
next
  assume "PAYSTACK_SECRET_KEY sv = Some k \<and> k \<noteq> [] \<and> amount args = Num (of_int n)"
  then show "map callAmount (snd (initializeTransaction sv args)) = [Num (of_int (n * 100))]"
    using initializeTransaction_amount[of sv k args] amountInSmallest_of_int[OF assms] by simp
next
  assume h: "chargeEvent rt req = Inr (Some (r, i, Some (JNum (Num (of_int (n * 100))))))
            \<and> findById (applicationIdOf r) st = Some a \<and> status a = pending_payment"
  then have ev: "chargeEvent rt req = Inr (Some (r, i, Some (JNum (Num (of_int (n * 100))))))"
    and found: "findById (applicationIdOf r) st = Some a" and pending: "status a = pending_payment"
    by simp_all
  define a' where "a' = a\<lparr>status := submitted,
      paymentTransactionId := Some (js_String rt (coalesce i (JStr r))),
      amountPaid := Some (Num (of_int n))\<rparr>"
  have "paystackWebhookHandler rt req st
      = Inr (save (a\<lparr>status := submitted,
                      paymentTransactionId := Some (js_String rt (coalesce i (JStr r))),
                      amountPaid := Some (js_div (Num (of_int (n * 100))) 100)\<rparr>) st)"
    using found pending by (simp add: handler_on_event[OF ev] js_Number_def)
  then have res: "paystackWebhookHandler rt req st = Inr (save a' st)"
    unfolding a'_def by (simp only: js_div_100_of_int[OF assms])
  have "app_id a' = applicationIdOf r"
    using findById_Some_app_id[OF found] by (simp add: a'_def)
  from findById_save[OF found this]
  have look: "findById (applicationIdOf r) (store_after st (paystackWebhookHandler rt req st)) = Some a'"
    by (simp add: res store_after_def)
  from res show "paystackWebhookHandler rt req st
      = Inr (save (a\<lparr>status := submitted,
                      paymentTransactionId := Some (js_String rt (coalesce i (JStr r))),
                      amountPaid := Some (Num (of_int n))\<rparr>) st)"
    by (simp only: a'_def)
  from look show "findById (applicationIdOf r) (store_after st (paystackWebhookHandler rt req st))
      = Some (a\<lparr>status := submitted,
                paymentTransactionId := Some (js_String rt (coalesce i (JStr r))),
                amountPaid := Some (Num (of_int n))\<rparr>)"
    by (simp only: a'_def)
qed

theorem amount_round_trip_witness:
  "\<bar>350 :: int\<bar> \<le> 360287970189640
   \<and> amountInSmallest (Num 350) = Num 35000
   \<and> js_div (amountInSmallest (Num 350)) 100 = Num 350
   \<and> map callAmount (snd (initializeTransaction sample_services
         (paymentInit sample_services sample_app (Some sample_opportunity) sample_user)))
       = [Num 35000]
   \<and> paystackWebhookHandler sample_runtime sample_request [sample_app]
       = Inr [sample_app\<lparr>status := submitted, paymentTransactionId := Some ''7'',
                          amountPaid := Some (Num 350)\<rparr>]
   \<and> findById ''65f0c0ffee0123456789abcd''
         (store_after [sample_app] (paystackWebhookHandler sample_runtime sample_request [sample_app]))
       = Some (sample_app\<lparr>status := submitted, paymentTransactionId := Some ''7'',
                          amountPaid := Some (Num 350)\<rparr>)"
proof -
  have b: "\<bar>350 :: int\<bar> \<le> 360287970189640" by simp
  have s: "PAYSTACK_SECRET_KEY sample_services = Some ''sk_live_1''"
    by (simp add: sample_services_def)
  have k: "''sk_live_1'' \<noteq> []" by simp
  have am: "amount (paymentInit sample_services sample_app (Some sample_opportunity) sample_user)
      = Num (of_int 350)"
    by (simp add: paymentInit_def sample_opportunity_def)
  have ev: "chargeEvent sample_runtime sample_request
      = Inr (Some (''APP-65f0c0ffee0123456789abcd-1700000000000'', Some (JNum (Num 7)),
                   Some (JNum (Num (of_int (350 * 100))))))"
    using sample_chargeEvent by simp
  have f: "findById (applicationIdOf ''APP-65f0c0ffee0123456789abcd-1700000000000'') [sample_app]
      = Some sample_app"
    by (simp add: sample_applicationIdOf sample_findById)
  note inst = amount_round_trip[OF b, of sample_services "''sk_live_1''"
      "paymentInit sample_services sample_app (Some sample_opportunity) sample_user"
      sample_runtime sample_request "''APP-65f0c0ffee0123456789abcd-1700000000000''"
      "Some (JNum (Num 7))" "[sample_app]" sample_app]
  from inst[THEN conjunct1] have 1: "amountInSmallest (Num 350) = Num 35000" by simp
  from inst[THEN conjunct2, THEN conjunct1] have 2: "js_div (amountInSmallest (Num 350)) 100 = Num 350"
    by simp
  from inst[THEN conjunct2, THEN conjunct2, THEN conjunct1, THEN mp, OF conjI[OF s conjI[OF k am]]]
  have 3: "map callAmount (snd (initializeTransaction sample_services
         (paymentInit sample_services sample_app (Some sample_opportunity) sample_user)))
       = [Num 35000]" by simp
  have t7: "js_String sample_runtime (coalesce (Some (JNum (Num 7))) d) = ''7''" for d
    by (simp add: coalesce_def js_String_def sample_runtime_def digit_def decimal.simps)
  note c = inst[THEN conjunct2, THEN conjunct2, THEN conjunct2, THEN mp,
      OF conjI[OF ev conjI[OF f sample_status]]]
  from c[THEN conjunct1]
  have 4: "paystackWebhookHandler sample_runtime sample_request [sample_app]
       = Inr [sample_app\<lparr>status := submitted, paymentTransactionId := Some ''7'',
                          amountPaid := Some (Num 350)\<rparr>]"
    by (simp add: t7 sample_app_id)
  from c[THEN conjunct2]
  have 5: "findById ''65f0c0ffee0123456789abcd''
         (store_after [sample_app] (paystackWebhookHandler sample_runtime sample_request [sample_app]))
       = Some (sample_app\<lparr>status := submitted, paymentTransactionId := Some ''7'',
                          amountPaid := Some (Num 350)\<rparr>)"
    by (simp add: t7 sample_applicationIdOf)
  from b 1 2 3 4 5 show ?thesis by blast
qed

end
